theory Spec2Isabelle
  imports Complex_Main "HOL-Library.AList"
begin

section \<open>Python values\<close>

text \<open>
  The program is the class \<open>PrayTimes\<close> of \<open>src/prayer_times.py\<close>. Its functions are
  embedded one by one, under their own names. An exception is a value of type \<open>error\<close>,
  and a function that can raise returns \<open>error + 'a\<close> with \<open>Inl\<close> for the exception.
\<close>

datatype error =
  AttributeError | KeyError | ValueError | ZeroDivisionError | TypeError | IndexError

text \<open>
  A Python \<open>float\<close> is modelled as an exact real number or the value NaN. Arithmetic is
  exact: the rounding of binary64 and the infinities are not part of the model. NaN is
  absorbing for the arithmetic operations and every comparison with NaN is false, as in
  Python. Two places where binary64 does not behave like the reals in kind, and not
  only in the last digits, are modelled as binary64 has them: the cosine of an odd
  multiple of 90 degrees, which is not zero (\<open>cos_deg\<close>), and the rounding inside
  \<open>fix\<close>, which has a model of its own with every operation rounded (\<open>fix64\<close>).
\<close>

datatype pyfloat = Fin real | NaN

instantiation pyfloat :: "{plus, minus, times, uminus, abs, ord}"
begin

fun plus_pyfloat :: "pyfloat \<Rightarrow> pyfloat \<Rightarrow> pyfloat" where
  "Fin a + Fin b = Fin (a + b)"
| "(_::pyfloat) + _ = NaN"

fun minus_pyfloat :: "pyfloat \<Rightarrow> pyfloat \<Rightarrow> pyfloat" where
  "Fin a - Fin b = Fin (a - b)"
| "(_::pyfloat) - _ = NaN"

fun times_pyfloat :: "pyfloat \<Rightarrow> pyfloat \<Rightarrow> pyfloat" where
  "Fin a * Fin b = Fin (a * b)"
| "(_::pyfloat) * _ = NaN"

fun uminus_pyfloat :: "pyfloat \<Rightarrow> pyfloat" where
  "- Fin a = Fin (- a)"
| "- NaN = NaN"

fun abs_pyfloat :: "pyfloat \<Rightarrow> pyfloat" where
  "\<bar>Fin a\<bar> = Fin \<bar>a\<bar>"
| "\<bar>NaN\<bar> = NaN"

fun less_pyfloat :: "pyfloat \<Rightarrow> pyfloat \<Rightarrow> bool" where
  "Fin a < Fin b = (a < b)"
| "(_::pyfloat) < _ = False"

fun less_eq_pyfloat :: "pyfloat \<Rightarrow> pyfloat \<Rightarrow> bool" where
  "Fin a \<le> Fin b = (a \<le> b)"
| "(_::pyfloat) \<le> _ = False"

instance ..

end

text \<open>\<open>math.isnan\<close>.\<close>

fun isnan :: "pyfloat \<Rightarrow> bool" where
  "isnan NaN = True"
| "isnan (Fin _) = False"

text \<open>The sequencing of two computations that can raise.\<close>

fun ebind :: "error + 'a \<Rightarrow> ('a \<Rightarrow> error + 'b) \<Rightarrow> error + 'b" where
  "ebind (Inl e) f = Inl e"
| "ebind (Inr x) f = f x"

text \<open>
  Python's true division \<open>a / b\<close> of floats raises ZeroDivisionError for a zero
  divisor, also when the dividend is NaN.
\<close>

fun fdiv :: "pyfloat \<Rightarrow> pyfloat \<Rightarrow> error + pyfloat" where
  "fdiv (Fin a) (Fin b) = (if b = 0 then Inl ZeroDivisionError else Inr (Fin (a / b)))"
| "fdiv NaN (Fin b) = (if b = 0 then Inl ZeroDivisionError else Inr NaN)"
| "fdiv _ NaN = Inr NaN"

text \<open>\<open>math.floor\<close> raises ValueError on NaN and returns an integer otherwise.\<close>

fun floor_py :: "pyfloat \<Rightarrow> error + int" where
  "floor_py (Fin a) = Inr \<lfloor>a\<rfloor>"
| "floor_py NaN = Inl ValueError"

text \<open>\<open>math.sqrt\<close> raises ValueError below zero and returns NaN on NaN.\<close>

fun sqrt_py :: "pyfloat \<Rightarrow> error + pyfloat" where
  "sqrt_py (Fin a) = (if a < 0 then Inl ValueError else Inr (Fin (sqrt a)))"
| "sqrt_py NaN = Inr NaN"

text \<open>
  The values a parameter dictionary holds: \<open>None\<close>, an \<open>int\<close>, a \<open>float\<close> or a
  \<open>str\<close>. A dictionary is an association list in insertion order, as Python keeps it;
  \<open>d[k] = v\<close> is \<open>AList.update k v d\<close> (in place for a key that is there, last
  otherwise), \<open>d.update(e)\<close> stores the items of \<open>e\<close> one after the other and
  \<open>d[k]\<close> raises KeyError for a key that is not there.
\<close>

datatype pyval = PNone | PInt int | PFloat pyfloat | PStr string

type_synonym dict = "(string \<times> pyval) list"

definition dict_update :: "dict \<Rightarrow> dict \<Rightarrow> dict" where
  "dict_update d e = foldl (\<lambda>acc (k, v). AList.update k v acc) d e"

definition dict_get :: "dict \<Rightarrow> string \<Rightarrow> error + pyval" where
  "dict_get d k = (case map_of d k of None \<Rightarrow> Inl KeyError | Some v \<Rightarrow> Inr v)"

section \<open>SettingsParser: eval and is\_min\<close>

text \<open>
  \<open>str(n)\<close> for an \<open>int\<close>: the decimal digits, after a minus sign when \<open>n < 0\<close>.
\<close>

function show_nat :: "nat \<Rightarrow> string" where
  "show_nat n =
     (if n < 10 then [''0123456789'' ! n]
      else show_nat (n div 10) @ [''0123456789'' ! (n mod 10)])"
  by pat_completeness auto
termination
  by (relation "measure id") auto

declare show_nat.simps [simp del]

definition show_int :: "int \<Rightarrow> string" where
  "show_int n = (if n < 0 then CHR ''-'' # show_nat (nat (- n)) else show_nat (nat n))"

text \<open>
  \<open>str(st)\<close>. The text Python prints for a \<open>float\<close> (its shortest decimal that reads
  back, in positional or exponent notation) is not defined by this program: it is the
  parameter \<open>float_str\<close> of \<open>eval\<close> and of every function that calls it.
\<close>

fun str_py :: "(pyfloat \<Rightarrow> string) \<Rightarrow> pyval \<Rightarrow> string" where
  "str_py float_str PNone = ''None''"
| "str_py float_str (PInt n) = show_int n"
| "str_py float_str (PFloat x) = float_str x"
| "str_py float_str (PStr s) = s"

text \<open>
  \<open>re.split('[^0-9.+-]', s, 1)[0]\<close>: the text before the first character that is not a
  digit, a point or a sign (all of \<open>s\<close> when there is none).
\<close>

definition numeric_char :: "char \<Rightarrow> bool" where
  "numeric_char c = (c \<in> set ''0123456789.+-'')"

definition leading_token :: "string \<Rightarrow> string" where
  "leading_token s = takeWhile numeric_char s"

text \<open>
  \<open>float(val)\<close> on a text of digits, points and signs. Python reads an optional sign,
  then digits with at most one point among them and at least one digit; anything else
  raises ValueError. The value is the decimal number read (exactly, see \<open>pyfloat\<close>).
  \<open>sign_split\<close> takes the sign off; \<open>point_split\<close> reads what follows the leading
  digits: nothing, or a point and digits only.
\<close>

definition is_digit :: "char \<Rightarrow> bool" where
  "is_digit c = (c \<in> set ''0123456789'')"

definition digit_val :: "char \<Rightarrow> nat" where
  "digit_val c = of_char c - 48"

definition digits_val :: "string \<Rightarrow> nat" where
  "digits_val ds = foldl (\<lambda>n c. 10 * n + digit_val c) 0 ds"

definition sign_split :: "string \<Rightarrow> bool \<times> string" where
  "sign_split s =
     (case s of
        [] \<Rightarrow> (False, s)
      | c # r \<Rightarrow> if c = CHR ''-'' then (True, r)
                 else if c = CHR ''+'' then (False, r) else (False, s))"

definition point_split :: "string \<Rightarrow> bool \<times> string" where
  "point_split rest =
     (case rest of
        [] \<Rightarrow> (True, [])
      | c # r \<Rightarrow> (c = CHR ''.'' \<and> list_all is_digit r, r))"

definition float_of_str :: "string \<Rightarrow> error + real" where
  "float_of_str s =
     (let (neg, body) = sign_split s;
          ip = takeWhile is_digit body;
          (wellformed, fp) = point_split (dropWhile is_digit body)
      in if wellformed \<and> (ip \<noteq> [] \<or> fp \<noteq> [])
         then let v = real (digits_val ip) + real (digits_val fp) / 10 ^ length fp
              in Inr (if neg then - v else v)
         else Inl ValueError)"

text \<open>
  \<^verbatim>\<open>
  def eval(self, st):
      val = re.split('[^0-9.+-]', str(st), 1)[0]
      return float(val) if val else 0
  \<close>
\<close>

definition eval_str :: "string \<Rightarrow> error + real" where
  "eval_str s = (let val = leading_token s in if val \<noteq> [] then float_of_str val else Inr 0)"

definition eval :: "(pyfloat \<Rightarrow> string) \<Rightarrow> pyval \<Rightarrow> error + real" where
  "eval float_str st = eval_str (str_py float_str st)"

text \<open>
  \<^verbatim>\<open>
  def is_min(self, arg):
      return isinstance(arg, str) and arg.find('min') > -1
  \<close>
  \<open>find_str pat s\<close> says whether \<open>pat\<close> occurs in \<open>s\<close> as a contiguous piece.
\<close>

fun find_str :: "string \<Rightarrow> string \<Rightarrow> bool" where
  "find_str pat [] = (pat = [])"
| "find_str pat (c # cs) = (take (length pat) (c # cs) = pat \<or> find_str pat cs)"

fun is_min :: "pyval \<Rightarrow> bool" where
  "is_min (PStr s) = find_str ''min'' s"
| "is_min _ = False"

section \<open>AngleMath: degree-based functions\<close>

text \<open>
  \<open>math.sin(math.radians(d))\<close> and its siblings; \<open>math.sin\<close>, \<open>math.cos\<close>,
  \<open>math.tan\<close>, \<open>math.atan\<close> and \<open>math.atan2\<close> return NaN on NaN and never raise on a
  number.
  \<^verbatim>\<open>
  def sin(self, d):
      return math.sin(math.radians(d))

  def cos(self, d):
      return math.cos(math.radians(d))

  def tan(self, d):
      return math.tan(math.radians(d))
  \<close>
\<close>

definition radians :: "real \<Rightarrow> real" where
  "radians d = d * pi / 180"

definition degrees :: "real \<Rightarrow> real" where
  "degrees r = r * 180 / pi"

text \<open>
  \<open>math.cos(math.radians(d))\<close> is never zero: \<open>math.radians(d)\<close> is a binary64 number, no
  binary64 number is an odd multiple of \<open>pi / 2\<close>, and at the nearest one the cosine is
  far above the smallest binary64 number. \<open>math.cos(math.radians(90.0))\<close> is
  \<open>6.123233995736766e-17\<close>, and \<open>math.tan(math.radians(90.0))\<close> is its inverse
  \<open>1.633123935319537e+16\<close>. So a division by a cosine, as in \<open>sun_angle_time\<close> at the
  latitude of a pole, does not raise ZeroDivisionError. \<open>cos_deg\<close> is the exact cosine
  wherever that is not zero, and the value of \<open>math.cos(math.radians(90.0))\<close> where it is.
\<close>

definition cos_deg :: "real \<Rightarrow> real" where
  "cos_deg d = (if cos (radians d) = 0 then 6123233995736766 / 10 ^ 32 else cos (radians d))"

fun sin_d :: "pyfloat \<Rightarrow> pyfloat" where
  "sin_d (Fin d) = Fin (sin (radians d))"
| "sin_d NaN = NaN"

fun cos_d :: "pyfloat \<Rightarrow> pyfloat" where
  "cos_d (Fin d) = Fin (cos_deg d)"
| "cos_d NaN = NaN"

fun tan_d :: "pyfloat \<Rightarrow> pyfloat" where
  "tan_d (Fin d) = Fin (sin (radians d) / cos_deg d)"
| "tan_d NaN = NaN"

text \<open>
  \<open>math.asin\<close> and \<open>math.acos\<close> raise ValueError (math domain error) for an argument
  outside \<open>[-1, 1]\<close> and return NaN on NaN.
  \<^verbatim>\<open>
  def arcsin(self, x):
      return math.degrees(math.asin(x))

  def arccos(self, x):
      return math.degrees(math.acos(x))
  \<close>
\<close>

fun arcsin_d :: "pyfloat \<Rightarrow> error + pyfloat" where
  "arcsin_d (Fin x) = (if x < - 1 \<or> 1 < x then Inl ValueError else Inr (Fin (degrees (arcsin x))))"
| "arcsin_d NaN = Inr NaN"

fun arccos_d :: "pyfloat \<Rightarrow> error + pyfloat" where
  "arccos_d (Fin x) = (if x < - 1 \<or> 1 < x then Inl ValueError else Inr (Fin (degrees (arccos x))))"
| "arccos_d NaN = Inr NaN"

fun arctan_d :: "pyfloat \<Rightarrow> pyfloat" where
  "arctan_d (Fin x) = Fin (degrees (arctan x))"
| "arctan_d NaN = NaN"

text \<open>\<open>math.degrees(math.atan(1.0 / x))\<close>.\<close>

definition arccot :: "pyfloat \<Rightarrow> error + pyfloat" where
  "arccot x = ebind (fdiv (Fin 1) x) (\<lambda>q. Inr (arctan_d q))"

text \<open>\<open>math.atan2(y, x)\<close>: the angle of the point \<open>(x, y)\<close>, in \<open>(-pi, pi]\<close>.\<close>

definition atan2 :: "real \<Rightarrow> real \<Rightarrow> real" where
  "atan2 y x =
     (if 0 < x then arctan (y / x)
      else if x < 0 then (if 0 \<le> y then arctan (y / x) + pi else arctan (y / x) - pi)
      else if 0 < y then pi / 2
      else if y < 0 then - (pi / 2)
      else 0)"

fun arctan2 :: "pyfloat \<Rightarrow> pyfloat \<Rightarrow> pyfloat" where
  "arctan2 (Fin y) (Fin x) = Fin (degrees (atan2 y x))"
| "arctan2 _ _ = NaN"

text \<open>
  \<^verbatim>\<open>
  def fix(self, a, mode):
      if math.isnan(a):
          return a

      a = a - mode * (math.floor(a / mode))
      return a + mode if a < 0 else a
  \<close>
  The name \<open>fix\<close> is a keyword of Isabelle; the function is \<open>fix_mode\<close> here. It is
  the function in the exact arithmetic of the engine's model; \<open>fix64\<close> below is the
  function in binary64.
\<close>

definition fix_mode :: "pyfloat \<Rightarrow> pyfloat \<Rightarrow> error + pyfloat" where
  "fix_mode a mode =
     (if isnan a then Inr a
      else ebind (fdiv a mode) (\<lambda>q.
           ebind (floor_py q) (\<lambda>n.
           let a' = a - mode * Fin (of_int n)
           in Inr (if a' < Fin 0 then a' + mode else a'))))"

definition fixangle :: "pyfloat \<Rightarrow> error + pyfloat" where
  "fixangle angle = fix_mode angle (Fin 360)"

definition fixhour :: "pyfloat \<Rightarrow> error + pyfloat" where
  "fixhour hour = fix_mode hour (Fin 24)"

text \<open>
  \<^verbatim>\<open>
  def time_diff(self, time1, time2):
      return self.fixhour(time2 - time1)
  \<close>
\<close>

definition time_diff :: "pyfloat \<Rightarrow> pyfloat \<Rightarrow> error + pyfloat" where
  "time_diff time1 time2 = fixhour (time2 - time1)"

subsection \<open>fix in binary64\<close>

text \<open>
  The operations of \<open>fix\<close> are a division, \<open>math.floor\<close>, a multiplication, a
  subtraction, a comparison and an addition. IEEE 754 defines each of them: the result is
  the exact result rounded to the nearest binary64 number, to the one with an even
  significand when two are equally near. A binary64 number is an integer multiple of
  its \<open>quantum\<close>, \<open>2\<close> to the power of its binary exponent minus 52 (and \<open>2\<close> to the
  power of \<open>- 1074\<close> for the subnormal numbers), with a significand below \<open>2\<close> to the
  power of 53. \<open>rnd64\<close> is this rounding; it has no overflow, so it is the rounding of
  binary64 for the results below \<open>2\<close> to the power of 1024 in magnitude.
  \<open>math.floor\<close> is exact, and the integer it returns is a binary64 number again when
  the multiplication converts it.
\<close>

definition quantum :: "real \<Rightarrow> real" where
  "quantum x = 2 powi (max (\<lfloor>log 2 \<bar>x\<bar>\<rfloor> - 52) (- 1074))"

definition round_even :: "real \<Rightarrow> int" where
  "round_even r =
     (let n = \<lfloor>r\<rfloor>; d = r - of_int n
      in if d < 1 / 2 then n else if 1 / 2 < d then n + 1 else if even n then n else n + 1)"

definition rnd64 :: "real \<Rightarrow> real" where
  "rnd64 x = (if x = 0 then 0 else of_int (round_even (x / quantum x)) * quantum x)"

fun rnd :: "pyfloat \<Rightarrow> pyfloat" where
  "rnd (Fin x) = Fin (rnd64 x)"
| "rnd NaN = NaN"

text \<open>
  \<open>fix\<close>, \<open>fixangle\<close> and \<open>fixhour\<close> with the result of every arithmetic operation
  rounded.
\<close>

definition fix64 :: "pyfloat \<Rightarrow> pyfloat \<Rightarrow> error + pyfloat" where
  "fix64 a mode =
     (if isnan a then Inr a
      else ebind (fdiv a mode) (\<lambda>q.
           ebind (floor_py (rnd q)) (\<lambda>n.
           let a' = rnd (a - rnd (mode * Fin (of_int n)))
           in Inr (if a' < Fin 0 then rnd (a' + mode) else a'))))"

definition fixangle64 :: "pyfloat \<Rightarrow> error + pyfloat" where
  "fixangle64 angle = fix64 angle (Fin 360)"

definition fixhour64 :: "pyfloat \<Rightarrow> error + pyfloat" where
  "fixhour64 hour = fix64 hour (Fin 24)"

section \<open>MethodCatalog and the engine's state\<close>

text \<open>
  An entry of \<open>methods\<close> is a dictionary with the two keys \<open>'name'\<close> and \<open>'params'\<close>.
\<close>

record method_config =
  m_name :: string
  params :: dict

text \<open>
  The state one engine reads and writes: the dictionaries \<open>methods\<close>, \<open>settings\<close> and
  \<open>offset\<close> (attributes of the class, changed in place), and the attributes assigned
  on the instance. The fields \<open>lat\<close> to \<open>jDate\<close> are assigned by \<open>get_times\<close>, through
  which every function that reads them is reached. An elevation can be \<open>None\<close>.
\<close>

record engine =
  methods :: "(string \<times> method_config) list"
  calc_method :: string
  settings :: dict
  time_format :: string
  num_iterations :: nat
  offset :: dict
  lat :: pyfloat
  lng :: pyfloat
  elv :: "pyfloat option"
  timeZone :: pyfloat
  jDate :: pyfloat

definition time_names :: "string list" where
  "time_names =
     [''imsak'', ''fajr'', ''sunrise'', ''dhuhr'', ''asr'', ''sunset'', ''maghrib'', ''isha'',
      ''midnight'']"

definition default_params :: dict where
  "default_params = [(''maghrib'', PStr ''0 min''), (''midnight'', PStr ''Standard'')]"

definition invalid_time :: string where
  "invalid_time = ''-----''"

definition time_suffixes :: "string list" where
  "time_suffixes = [''am'', ''pm'']"

text \<open>
  The class as the module defines it, before any instance is made. A \<open>float\<close> of the
  table is written with its exact decimal value.
\<close>

definition class_state :: engine where
  "class_state =
     \<lparr> methods =
         [(''MWL'', \<lparr>m_name = ''Muslim World League'',
                    params = [(''fajr'', PInt 18), (''isha'', PInt 17)]\<rparr>),
          (''ISNA'', \<lparr>m_name = ''Islamic Society of North America (ISNA)'',
                     params = [(''fajr'', PInt 15), (''isha'', PInt 15)]\<rparr>),
          (''Egypt'', \<lparr>m_name = ''Egyptian General Authority of Survey'',
                      params = [(''fajr'', PFloat (Fin 19.5)), (''isha'', PFloat (Fin 17.5))]\<rparr>),
          (''Makkah'', \<lparr>m_name = ''Umm Al-Qura University, Makkah'',
                       params = [(''fajr'', PFloat (Fin 18.5)), (''isha'', PStr ''90 min'')]\<rparr>),
          (''Karachi'', \<lparr>m_name = ''University of Islamic Sciences, Karachi'',
                        params = [(''fajr'', PInt 18), (''isha'', PInt 18)]\<rparr>),
          (''Tehran'', \<lparr>m_name = ''Institute of Geophysics, University of Tehran'',
                       params = [(''fajr'', PFloat (Fin 17.7)), (''isha'', PInt 14),
                                 (''maghrib'', PFloat (Fin 4.5)), (''midnight'', PStr ''Jafari'')]\<rparr>),
          (''Jafari'', \<lparr>m_name = ''Shia Ithna-Ashari, Leva Institute, Qum'',
                       params = [(''fajr'', PInt 16), (''isha'', PInt 14),
                                 (''maghrib'', PInt 4), (''midnight'', PStr ''Jafari'')]\<rparr>)],
       calc_method = ''ISNA'',
       settings =
         [(''imsak'', PStr ''10 min''), (''dhuhr'', PStr ''0 min''), (''asr'', PStr ''Standard''),
          (''highLats'', PStr ''NightMiddle'')],
       time_format = ''24h'',
       num_iterations = 1,
       offset = [],
       lat = Fin 0, lng = Fin 0, elv = None, timeZone = Fin 0, jDate = Fin 0 \<rparr>"

text \<open>
  \<^verbatim>\<open>
  def __init__(self, method="ISNA"):
      # set methods defaults
      for method_name, config in self.methods.items():
          for name, value in self.default_params.items():
              if name not in config['params'] or config['params'][name] is None:
                  config['params'][name] = value

      # initialize settings
      self.calc_method = method if method in self.methods else 'ISNA'
      params = self.methods[self.calc_method]['params']
      for name, value in params.items():
          self.settings[name] = value

      # init time offsets
      for name in self.time_names:
          self.offset[name] = 0
  \<close>
\<close>

definition merge_defaults :: "dict \<Rightarrow> dict" where
  "merge_defaults ps =
     foldl (\<lambda>acc (name, v).
              if map_of acc name = None \<or> map_of acc name = Some PNone
              then AList.update name v acc else acc)
       ps default_params"

definition init :: "engine \<Rightarrow> string \<Rightarrow> error + engine" where
  "init cls method =
     (let ms = map (\<lambda>(method_name, config). (method_name, config\<lparr>params := merge_defaults (params config)\<rparr>))
                 (methods cls);
          cm = (if map_of ms method \<noteq> None then method else ''ISNA'')
      in case map_of ms cm of
           None \<Rightarrow> Inl KeyError
         | Some config \<Rightarrow>
             Inr (cls\<lparr> methods := ms,
                       calc_method := cm,
                       settings := dict_update (settings cls) (params config),
                       offset := foldl (\<lambda>acc name. AList.update name (PInt 0) acc) (offset cls) time_names \<rparr>))"

section \<open>Interface functions\<close>

text \<open>
  What a function's argument or an attribute can be, as far as these functions tell
  them apart: a parameter dictionary, or a built-in method object.
\<close>

datatype pyobj = Dict dict | BuiltinMethod string

text \<open>
  Attribute access on a \<open>dict\<close> object: a dictionary has its built-in methods as
  attributes, never its keys.
\<close>

definition dict_method_names :: "string list" where
  "dict_method_names =
     [''clear'', ''copy'', ''fromkeys'', ''get'', ''items'', ''keys'', ''pop'', ''popitem'',
      ''setdefault'', ''update'', ''values'']"

definition getattr_dict :: "string \<Rightarrow> error + pyobj" where
  "getattr_dict a =
     (if a \<in> set dict_method_names then Inr (BuiltinMethod a) else Inl AttributeError)"

text \<open>
  \<open>self.<a>.update(e)\<close>. The parameter dictionaries of an engine are \<open>settings\<close> and
  \<open>offset\<close>; a name that is no attribute raises AttributeError, and so does the lookup
  of \<open>update\<close> on an attribute that is not a dictionary.
\<close>

definition update_attr :: "engine \<Rightarrow> string \<Rightarrow> dict \<Rightarrow> (error + unit) \<times> engine" where
  "update_attr self a e =
     (if a = ''settings'' then (Inr (), self\<lparr>settings := dict_update (settings self) e\<rparr>)
      else if a = ''offset'' then (Inr (), self\<lparr>offset := dict_update (offset self) e\<rparr>)
      else (Inl AttributeError, self))"

text \<open>
  \<^verbatim>\<open>
  def adjust(self, params):
      self.settings.update(params)
  \<close>
  \<open>dict.update\<close> raises TypeError for an argument that cannot be iterated.
\<close>

fun adjust :: "engine \<Rightarrow> pyobj \<Rightarrow> (error + unit) \<times> engine" where
  "adjust self (Dict ps) = update_attr self ''settings'' ps"
| "adjust self (BuiltinMethod _) = (Inl TypeError, self)"

text \<open>
  \<^verbatim>\<open>
  def set_method(self, method):
      if method in self.methods:
          self.adjust(self.methods[method].params)
          self.calc_method = method
  \<close>
  \<open>self.methods[method]\<close> is a dictionary, and \<open>.params\<close> is an attribute access on it.
\<close>

definition set_method :: "engine \<Rightarrow> string \<Rightarrow> (error + unit) \<times> engine" where
  "set_method self method =
     (if map_of (methods self) method \<noteq> None then
        (case getattr_dict ''params'' of
           Inl e \<Rightarrow> (Inl e, self)
         | Inr ps \<Rightarrow>
             (case adjust self ps of
                (Inl e, self') \<Rightarrow> (Inl e, self')
              | (Inr _, self') \<Rightarrow> (Inr (), self'\<lparr>calc_method := method\<rparr>)))
      else (Inr (), self))"

text \<open>
  \<^verbatim>\<open>
  def tune(self, timeOffsets):
      self.offsets.update(timeOffsets)
  \<close>
\<close>

definition tune :: "engine \<Rightarrow> dict \<Rightarrow> (error + unit) \<times> engine" where
  "tune self timeOffsets = update_attr self ''offsets'' timeOffsets"

definition get_method :: "engine \<Rightarrow> string" where
  "get_method self = calc_method self"

definition get_settings :: "engine \<Rightarrow> dict" where
  "get_settings self = settings self"

definition get_offsets :: "engine \<Rightarrow> dict" where
  "get_offsets self = offset self"

section \<open>SolarPositionModel and AngleTimeSolver\<close>

text \<open>
  Division of a float by a numeric literal \<open>c\<close> other than zero, as in \<open>x / 15.0\<close>:
  it cannot raise. (\<open>fdiv a (Fin c)\<close> is \<open>Inr (fdivl a c)\<close> for \<open>c \<noteq> 0\<close>, lemma
  \<open>fdiv_literal\<close>.)
\<close>

fun fdivl :: "pyfloat \<Rightarrow> real \<Rightarrow> pyfloat" where
  "fdivl (Fin a) c = Fin (a / c)"
| "fdivl NaN c = NaN"

text \<open>
  \<^verbatim>\<open>
  def sun_position(self, jd):
      D = jd - 2451545.0
      g = self.fixangle(357.529 + 0.98560028 * D)
      q = self.fixangle(280.459 + 0.98564736 * D)
      L = self.fixangle(q + 1.915 * self.sin(g) + 0.020 * self.sin(2 * g))

      # R = 1.00014 - 0.01671 * self.cos(g) - 0.00014 * self.cos(2 * g)
      e = 23.439 - 0.00000036 * D

      RA = self.arctan2(self.cos(e) * self.sin(L), self.cos(L)) / 15.0
      eqt = q / 15.0 - self.fixhour(RA)
      decl = self.arcsin(self.sin(e) * self.sin(L))

      return (decl, eqt)
  \<close>
\<close>

definition sun_position :: "pyfloat \<Rightarrow> error + pyfloat \<times> pyfloat" where
  "sun_position jd =
     (let D = jd - Fin 2451545.0 in
      ebind (fixangle (Fin 357.529 + Fin 0.98560028 * D)) (\<lambda>g.
      ebind (fixangle (Fin 280.459 + Fin 0.98564736 * D)) (\<lambda>q.
      ebind (fixangle (q + Fin 1.915 * sin_d g + Fin 0.020 * sin_d (Fin 2 * g))) (\<lambda>L.
      let e = Fin 23.439 - Fin 0.00000036 * D;
          RA = fdivl (arctan2 (cos_d e * sin_d L) (cos_d L)) 15.0
      in
      ebind (fixhour RA) (\<lambda>fRA.
      let eqt = fdivl q 15.0 - fRA in
      ebind (arcsin_d (sin_d e * sin_d L)) (\<lambda>decl.
      Inr (decl, eqt)))))))"

text \<open>
  \<^verbatim>\<open>
  def mid_day(self, time):
      eqt = self.sun_position(self.jDate + time)[1]
      return self.fixhour(12 - eqt)
  \<close>
\<close>

definition mid_day :: "engine \<Rightarrow> pyfloat \<Rightarrow> error + pyfloat" where
  "mid_day self time =
     ebind (sun_position (jDate self + time)) (\<lambda>(decl, eqt). fixhour (Fin 12 - eqt))"

text \<open>
  \<^verbatim>\<open>
  def sun_angle_time(self, angle, time, direction=None):
      try:
          decl = self.sun_position(self.jDate + time)[0]
          noon = self.mid_day(time)
          t = 1 / 15.0 * self.arccos((-self.sin(angle) - self.sin(decl) * self.sin(self.lat)) / (self.cos(decl) * self.cos(self.lat)))
          return noon + (-t if direction == 'ccw' else t)
      except ValueError:
          return float('nan')
  \<close>
  \<open>hour_angle_arg\<close> is the argument of \<open>arccos\<close>, the quotient of the equation
  \<open>cos H = (- sin angle - sin decl * sin lat) / (cos decl * cos lat)\<close>.
\<close>

definition hour_angle_arg :: "engine \<Rightarrow> pyfloat \<Rightarrow> pyfloat \<Rightarrow> error + pyfloat" where
  "hour_angle_arg self angle decl =
     fdiv (- sin_d angle - sin_d decl * sin_d (lat self)) (cos_d decl * cos_d (lat self))"

definition sun_angle_time :: "engine \<Rightarrow> pyfloat \<Rightarrow> pyfloat \<Rightarrow> string option \<Rightarrow> error + pyfloat" where
  "sun_angle_time self angle time direction =
     (case
        ebind (sun_position (jDate self + time)) (\<lambda>(decl, eqt).
        ebind (mid_day self time) (\<lambda>noon.
        ebind (hour_angle_arg self angle decl) (\<lambda>x.
        ebind (arccos_d x) (\<lambda>H.
        let t = Fin (1 / 15.0) * H
        in Inr (noon + (if direction = Some ''ccw'' then - t else t))))))
      of
        Inl e \<Rightarrow> if e = ValueError then Inr NaN else Inl e
      | Inr r \<Rightarrow> Inr r)"

text \<open>
  \<^verbatim>\<open>
  def asr_time(self, factor, time):
      decl = self.sun_position(self.jDate + time)[0]
      angle = -self.arccot(factor + self.tan(abs(self.lat - decl)))
      return self.sun_angle_time(angle, time)
  \<close>
\<close>

definition asr_time :: "engine \<Rightarrow> pyfloat \<Rightarrow> pyfloat \<Rightarrow> error + pyfloat" where
  "asr_time self factor time =
     ebind (sun_position (jDate self + time)) (\<lambda>(decl, eqt).
     ebind (arccot (factor + tan_d \<bar>lat self - decl\<bar>)) (\<lambda>a.
     sun_angle_time self (- a) time None))"

text \<open>
  \<^verbatim>\<open>
  def julian(self, year, month, day):
      if month <= 2:
          year -= 1
          month += 12
      A = math.floor(year / 100)
      B = 2 - A + math.floor(A / 4)
      return math.floor(365.25 * (year + 4716)) + math.floor(30.6001 * (month + 1)) + day + B - 1524.5
  \<close>
\<close>

definition julian :: "int \<Rightarrow> int \<Rightarrow> int \<Rightarrow> pyfloat" where
  "julian year month day =
     (let (y, m) = (if month \<le> 2 then (year - 1, month + 12) else (year, month));
          A = \<lfloor>real_of_int y / 100\<rfloor>;
          B = 2 - A + \<lfloor>real_of_int A / 4\<rfloor>
      in Fin (of_int \<lfloor>365.25 * real_of_int (y + 4716)\<rfloor> + of_int \<lfloor>30.6001 * real_of_int (m + 1)\<rfloor>
              + of_int day + of_int B - 1524.5))"

section \<open>PrayerTimeEngine\<close>

text \<open>
  A prayer time set is a dictionary with fixed keys: the eight times of
  \<open>compute_prayer_times\<close>, and \<open>midnight\<close> from \<open>compute_times\<close> on.
\<close>

record 'a times =
  imsak :: 'a
  fajr :: 'a
  sunrise :: 'a
  dhuhr :: 'a
  asr :: 'a
  sunset :: 'a
  maghrib :: 'a
  isha :: 'a

record 'a day_times = "'a times" +
  midnight :: 'a

definition map_times :: "('a \<Rightarrow> 'b) \<Rightarrow> 'a times \<Rightarrow> 'b times" where
  "map_times f t =
     \<lparr> imsak = f (imsak t), fajr = f (fajr t), sunrise = f (sunrise t), dhuhr = f (dhuhr t),
       asr = f (asr t), sunset = f (sunset t), maghrib = f (maghrib t), isha = f (isha t) \<rparr>"

text \<open>
  A loop \<open>for name, value in times.items()\<close> over the nine times, in the order of the
  keys, that stops at the first exception.
\<close>

definition for_times :: "(string \<Rightarrow> 'a \<Rightarrow> error + 'b) \<Rightarrow> 'a day_times \<Rightarrow> error + 'b day_times" where
  "for_times f t =
     ebind (f ''imsak'' (imsak t)) (\<lambda>v1.
     ebind (f ''fajr'' (fajr t)) (\<lambda>v2.
     ebind (f ''sunrise'' (sunrise t)) (\<lambda>v3.
     ebind (f ''dhuhr'' (dhuhr t)) (\<lambda>v4.
     ebind (f ''asr'' (asr t)) (\<lambda>v5.
     ebind (f ''sunset'' (sunset t)) (\<lambda>v6.
     ebind (f ''maghrib'' (maghrib t)) (\<lambda>v7.
     ebind (f ''isha'' (isha t)) (\<lambda>v8.
     ebind (f ''midnight'' (midnight t)) (\<lambda>v9.
     Inr \<lparr> imsak = v1, fajr = v2, sunrise = v3, dhuhr = v4, asr = v5, sunset = v6,
           maghrib = v7, isha = v8, midnight = v9 \<rparr>)))))))))"

text \<open>
  \<^verbatim>\<open>
  def day_portion(self, times):
      for i in times:
          times[i] /= 24.0
      return times
  \<close>
\<close>

definition day_portion :: "pyfloat times \<Rightarrow> pyfloat times" where
  "day_portion t = map_times (\<lambda>v. fdivl v 24.0) t"

text \<open>
  \<^verbatim>\<open>
  def asr_factor(self, asrParam):
      methods = {'Standard': 1, 'Hanafi': 2}
      return methods[asrParam] if asrParam in methods else self.eval(asrParam)

  def rise_set_angle(self, elevation=0):
      elevation = 0 if elevation is None else elevation
      # an approximation
      return 0.833 + 0.0347 * math.sqrt(elevation)
  \<close>
\<close>

definition asr_factor :: "(pyfloat \<Rightarrow> string) \<Rightarrow> pyval \<Rightarrow> error + real" where
  "asr_factor float_str asrParam =
     (if asrParam = PStr ''Standard'' then Inr 1
      else if asrParam = PStr ''Hanafi'' then Inr 2
      else eval float_str asrParam)"

definition rise_set_angle :: "pyfloat option \<Rightarrow> error + pyfloat" where
  "rise_set_angle elevation =
     (let el = (case elevation of None \<Rightarrow> Fin 0 | Some x \<Rightarrow> x)
      in ebind (sqrt_py el) (\<lambda>r. Inr (Fin 0.833 + Fin 0.0347 * r)))"

text \<open>\<open>self.eval(params[name])\<close> for \<open>params = self.settings\<close>.\<close>

definition eval_param :: "(pyfloat \<Rightarrow> string) \<Rightarrow> engine \<Rightarrow> string \<Rightarrow> error + real" where
  "eval_param float_str self name = ebind (dict_get (settings self) name) (eval float_str)"

text \<open>
  \<^verbatim>\<open>
  def compute_prayer_times(self, times):
      times = self.day_portion(times)
      params = self.settings

      imsak = self.sun_angle_time(self.eval(params['imsak']), times['imsak'], 'ccw')
      fajr = self.sun_angle_time(self.eval(params['fajr']), times['fajr'], 'ccw')
      sunrise = self.sun_angle_time(self.rise_set_angle(self.elv), times['sunrise'], 'ccw')
      dhuhr = self.mid_day(times['dhuhr'])
      asr = self.asr_time(self.asr_factor(params['asr']), times['asr'])
      sunset = self.sun_angle_time(self.rise_set_angle(self.elv), times['sunset'])
      maghrib = self.sun_angle_time(self.eval(params['maghrib']), times['maghrib'])
      isha = self.sun_angle_time(self.eval(params['isha']), times['isha'])

      return {
          'imsak': imsak, 'fajr': fajr, 'sunrise': sunrise, 'dhuhr': dhuhr,
          'asr': asr, 'sunset': sunset, 'maghrib': maghrib, 'isha': isha
      }
  \<close>
\<close>

definition compute_prayer_times ::
  "(pyfloat \<Rightarrow> string) \<Rightarrow> engine \<Rightarrow> pyfloat times \<Rightarrow> error + pyfloat times" where
  "compute_prayer_times float_str self times0 =
     (let t = day_portion times0 in
      ebind (eval_param float_str self ''imsak'') (\<lambda>a1.
      ebind (sun_angle_time self (Fin a1) (imsak t) (Some ''ccw'')) (\<lambda>v_imsak.
      ebind (eval_param float_str self ''fajr'') (\<lambda>a2.
      ebind (sun_angle_time self (Fin a2) (fajr t) (Some ''ccw'')) (\<lambda>v_fajr.
      ebind (rise_set_angle (elv self)) (\<lambda>a3.
      ebind (sun_angle_time self a3 (sunrise t) (Some ''ccw'')) (\<lambda>v_sunrise.
      ebind (mid_day self (dhuhr t)) (\<lambda>v_dhuhr.
      ebind (dict_get (settings self) ''asr'') (\<lambda>p_asr.
      ebind (asr_factor float_str p_asr) (\<lambda>a5.
      ebind (asr_time self (Fin a5) (asr t)) (\<lambda>v_asr.
      ebind (rise_set_angle (elv self)) (\<lambda>a6.
      ebind (sun_angle_time self a6 (sunset t) None) (\<lambda>v_sunset.
      ebind (eval_param float_str self ''maghrib'') (\<lambda>a7.
      ebind (sun_angle_time self (Fin a7) (maghrib t) None) (\<lambda>v_maghrib.
      ebind (eval_param float_str self ''isha'') (\<lambda>a8.
      ebind (sun_angle_time self (Fin a8) (isha t) None) (\<lambda>v_isha.
      Inr \<lparr> imsak = v_imsak, fajr = v_fajr, sunrise = v_sunrise, dhuhr = v_dhuhr,
            asr = v_asr, sunset = v_sunset, maghrib = v_maghrib, isha = v_isha \<rparr>
      )))))))))))))))))"

section \<open>HighLatitudeAdjuster\<close>

text \<open>
  \<^verbatim>\<open>
  def night_portion(self, angle, night):
      method = self.settings['highLats']
      # midnight
      portion = 1 / 2.0
      if method == 'AngleBased':
          portion = 1 / 60.0 * angle
      if method == 'OneSeventh':
          portion = 1 / 7.0
      return portion * night
  \<close>
\<close>

definition night_portion :: "engine \<Rightarrow> real \<Rightarrow> pyfloat \<Rightarrow> error + pyfloat" where
  "night_portion self angle night =
     ebind (dict_get (settings self) ''highLats'') (\<lambda>method.
     let portion = 1 / 2.0;
         portion = (if method = PStr ''AngleBased'' then 1 / 60.0 * angle else portion);
         portion = (if method = PStr ''OneSeventh'' then 1 / 7.0 else portion)
     in Inr (Fin portion * night))"

text \<open>
  \<^verbatim>\<open>
  def adjust_HL_time(self, time, base, angle, night, direction=None):
      portion = self.night_portion(angle, night)
      diff = self.time_diff(time, base) if direction == 'ccw' else self.time_diff(base, time)
      if math.isnan(time) or diff > portion:
          time = base + (-portion if direction == 'ccw' else portion)
      return time
  \<close>
\<close>

definition adjust_HL_time ::
  "engine \<Rightarrow> pyfloat \<Rightarrow> pyfloat \<Rightarrow> real \<Rightarrow> pyfloat \<Rightarrow> string option \<Rightarrow> error + pyfloat" where
  "adjust_HL_time self time base angle night direction =
     ebind (night_portion self angle night) (\<lambda>portion.
     ebind (if direction = Some ''ccw'' then time_diff time base else time_diff base time) (\<lambda>diff.
     Inr (if isnan time \<or> diff > portion
          then base + (if direction = Some ''ccw'' then - portion else portion)
          else time)))"

text \<open>
  \<^verbatim>\<open>
  def adjust_high_lats(self, times):
      params = self.settings
      # sunset to sunrise
      nightTime = self.time_diff(times['sunset'], times['sunrise'])
      times['imsak'] = self.adjust_HL_time(times['imsak'], times['sunrise'], self.eval(params['imsak']), nightTime, 'ccw')
      times['fajr'] = self.adjust_HL_time(times['fajr'], times['sunrise'], self.eval(params['fajr']), nightTime, 'ccw')
      times['isha'] = self.adjust_HL_time(times['isha'], times['sunset'], self.eval(params['isha']), nightTime)
      times['maghrib'] = self.adjust_HL_time(times['maghrib'], times['sunset'], self.eval(params['maghrib']), nightTime)
      return times
  \<close>
\<close>

definition adjust_high_lats ::
  "(pyfloat \<Rightarrow> string) \<Rightarrow> engine \<Rightarrow> pyfloat times \<Rightarrow> error + pyfloat times" where
  "adjust_high_lats float_str self t =
     ebind (time_diff (sunset t) (sunrise t)) (\<lambda>nightTime.
     ebind (eval_param float_str self ''imsak'') (\<lambda>a1.
     ebind (adjust_HL_time self (imsak t) (sunrise t) a1 nightTime (Some ''ccw'')) (\<lambda>v1.
     let t = t\<lparr>imsak := v1\<rparr> in
     ebind (eval_param float_str self ''fajr'') (\<lambda>a2.
     ebind (adjust_HL_time self (fajr t) (sunrise t) a2 nightTime (Some ''ccw'')) (\<lambda>v2.
     let t = t\<lparr>fajr := v2\<rparr> in
     ebind (eval_param float_str self ''isha'') (\<lambda>a3.
     ebind (adjust_HL_time self (isha t) (sunset t) a3 nightTime None) (\<lambda>v3.
     let t = t\<lparr>isha := v3\<rparr> in
     ebind (eval_param float_str self ''maghrib'') (\<lambda>a4.
     ebind (adjust_HL_time self (maghrib t) (sunset t) a4 nightTime None) (\<lambda>v4.
     Inr (t\<lparr>maghrib := v4\<rparr>))))))))))"

section \<open>Adjusting, tuning and formatting the times\<close>

text \<open>
  The last stage of \<open>adjust_times\<close>, its lines
  \<^verbatim>\<open>
      if self.is_min(params['imsak']):
          times['imsak'] = times['fajr'] - self.eval(params['imsak']) / 60.0
      # need to ask about 'min' settings
      if self.is_min(params['maghrib']):
          times['maghrib'] = times['sunset'] - self.eval(params['maghrib']) / 60.0

      if self.is_min(params['isha']):
          times['isha'] = times['maghrib'] - self.eval(params['isha']) / 60.0
      times['dhuhr'] += self.eval(params['dhuhr']) / 60.0
  \<close>
\<close>

definition minute_offsets ::
  "(pyfloat \<Rightarrow> string) \<Rightarrow> engine \<Rightarrow> pyfloat times \<Rightarrow> error + pyfloat times" where
  "minute_offsets float_str self t =
     (let params = settings self in
      ebind (dict_get params ''imsak'') (\<lambda>p1.
      ebind (if is_min p1
             then ebind (eval float_str p1) (\<lambda>m. Inr (t\<lparr>imsak := fajr t - Fin (m / 60.0)\<rparr>))
             else Inr t) (\<lambda>t.
      ebind (dict_get params ''maghrib'') (\<lambda>p2.
      ebind (if is_min p2
             then ebind (eval float_str p2) (\<lambda>m. Inr (t\<lparr>maghrib := sunset t - Fin (m / 60.0)\<rparr>))
             else Inr t) (\<lambda>t.
      ebind (dict_get params ''isha'') (\<lambda>p3.
      ebind (if is_min p3
             then ebind (eval float_str p3) (\<lambda>m. Inr (t\<lparr>isha := maghrib t - Fin (m / 60.0)\<rparr>))
             else Inr t) (\<lambda>t.
      ebind (eval_param float_str self ''dhuhr'') (\<lambda>m.
      Inr (t\<lparr>dhuhr := dhuhr t + Fin (m / 60.0)\<rparr>)))))))))"

text \<open>
  \<^verbatim>\<open>
  def adjust_times(self, times):
      params = self.settings
      tzAdjust = self.timeZone - self.lng / 15.0
      for t, v in times.items():
          times[t] += tzAdjust

      if params['highLats'] != 'None':
          times = self.adjust_high_lats(times)
      ...
      return times
  \<close>
  with \<open>minute_offsets\<close> for the lines left out.
\<close>

definition adjust_times ::
  "(pyfloat \<Rightarrow> string) \<Rightarrow> engine \<Rightarrow> pyfloat times \<Rightarrow> error + pyfloat times" where
  "adjust_times float_str self t =
     (let tzAdjust = timeZone self - fdivl (lng self) 15.0;
          t = map_times (\<lambda>v. v + tzAdjust) t
      in
      ebind (dict_get (settings self) ''highLats'') (\<lambda>hl.
      ebind (if hl \<noteq> PStr ''None'' then adjust_high_lats float_str self t else Inr t) (\<lambda>t.
      minute_offsets float_str self t)))"

text \<open>
  \<^verbatim>\<open>
  def tune_times(self, times):
      for name, value in times.items():
          times[name] += self.offset[name] / 60.0
      return times
  \<close>
  \<open>x / 60.0\<close> raises TypeError for \<open>x\<close> that is not a number.
\<close>

fun div60 :: "pyval \<Rightarrow> error + pyfloat" where
  "div60 (PInt n) = Inr (Fin (real_of_int n / 60.0))"
| "div60 (PFloat x) = Inr (fdivl x 60.0)"
| "div60 _ = Inl TypeError"

definition tune_times :: "engine \<Rightarrow> pyfloat day_times \<Rightarrow> error + pyfloat day_times" where
  "tune_times self t =
     for_times (\<lambda>name v. ebind (dict_get (offset self) name) (\<lambda>x.
                          ebind (div60 x) (\<lambda>d. Inr (v + d)))) t"

text \<open>
  \<^verbatim>\<open>
  def get_formatted_time(self, time, format, suffixes=None):
      if math.isnan(time):
          return self.invalid_time
      if format == 'Float':
          return time
      if suffixes is None:
          suffixes = self.time_suffixes

      # add 0.5 minutes to round
      time = self.fixhour(time + 0.5 / 60)
      hours = math.floor(time)

      minutes = math.floor((time - hours) * 60)
      suffix = suffixes[0 if hours < 12 else 1] if format == '12h' else ''
      formattedTime = "%02d:%02d" % (hours, minutes) if format == "24h" else "%d:%02d" % ((hours + 11) % 12 + 1, minutes)
      return formattedTime + suffix
  \<close>
  The result is a text, or the float itself in the format \<open>'Float'\<close>. The function is
  called with the default suffixes only.
\<close>

datatype formatted = Text string | Number pyfloat

definition fmt_02d :: "int \<Rightarrow> string" where
  "fmt_02d n = (let s = show_int n in replicate (2 - length s) CHR ''0'' @ s)"

definition get_formatted_time :: "pyfloat \<Rightarrow> string \<Rightarrow> error + formatted" where
  "get_formatted_time time format =
     (if isnan time then Inr (Text invalid_time)
      else if format = ''Float'' then Inr (Number time)
      else
        ebind (fixhour (time + Fin (0.5 / 60))) (\<lambda>time.
        ebind (floor_py time) (\<lambda>hours.
        ebind (floor_py ((time - Fin (of_int hours)) * Fin 60)) (\<lambda>minutes.
        let suffix = (if format = ''12h'' then time_suffixes ! (if hours < 12 then 0 else 1) else []);
            formattedTime =
              (if format = ''24h'' then fmt_02d hours @ '':'' @ fmt_02d minutes
               else show_int ((hours + 11) mod 12 + 1) @ '':'' @ fmt_02d minutes)
        in Inr (Text (formattedTime @ suffix))))))"

text \<open>
  \<^verbatim>\<open>
  def modify_formats(self, times):
      for name, value in times.items():
          times[name] = self.get_formatted_time(times[name], self.time_format)
      return times
  \<close>
\<close>

definition modify_formats :: "engine \<Rightarrow> pyfloat day_times \<Rightarrow> error + formatted day_times" where
  "modify_formats self t = for_times (\<lambda>name v. get_formatted_time v (time_format self)) t"

text \<open>
  \<^verbatim>\<open>
  def compute_times(self):
      times = {
          'imsak': 5, 'fajr': 5, 'sunrise': 6, 'dhuhr': 12,
          'asr': 13, 'sunset': 18, 'maghrib': 18, 'isha': 18
      }
      # main iterations
      for i in range(self.num_iterations):
          times = self.compute_prayer_times(times)
      times = self.adjust_times(times)
      # add midnight time
      if self.settings['midnight'] == 'Jafari':
          times['midnight'] = times['sunset'] + self.time_diff(times['sunset'], times['fajr']) / 2
      else:
          times['midnight'] = times['sunset'] + self.time_diff(times['sunset'], times['sunrise']) / 2

      times = self.tune_times(times)
      return self.modify_formats(times)
  \<close>
  \<open>finish_times\<close> is the function from the call of \<open>adjust_times\<close> on: what
  \<open>compute_times\<close> does with the times the iterations have computed.
\<close>

definition seed_times :: "pyfloat times" where
  "seed_times =
     \<lparr> imsak = Fin 5, fajr = Fin 5, sunrise = Fin 6, dhuhr = Fin 12,
       asr = Fin 13, sunset = Fin 18, maghrib = Fin 18, isha = Fin 18 \<rparr>"

fun iterate :: "nat \<Rightarrow> ('a \<Rightarrow> error + 'a) \<Rightarrow> 'a \<Rightarrow> error + 'a" where
  "iterate 0 f x = Inr x"
| "iterate (Suc n) f x = ebind (f x) (iterate n f)"

definition add_midnight :: "pyfloat times \<Rightarrow> pyfloat \<Rightarrow> pyfloat day_times" where
  "add_midnight t m =
     \<lparr> imsak = imsak t, fajr = fajr t, sunrise = sunrise t, dhuhr = dhuhr t, asr = asr t,
       sunset = sunset t, maghrib = maghrib t, isha = isha t, midnight = m \<rparr>"

definition finish_times ::
  "(pyfloat \<Rightarrow> string) \<Rightarrow> engine \<Rightarrow> pyfloat times \<Rightarrow> error + formatted day_times" where
  "finish_times float_str self times0 =
     ebind (adjust_times float_str self times0) (\<lambda>t.
     ebind (dict_get (settings self) ''midnight'') (\<lambda>rule.
     ebind (if rule = PStr ''Jafari'' then time_diff (sunset t) (fajr t)
            else time_diff (sunset t) (sunrise t)) (\<lambda>night.
     ebind (tune_times self (add_midnight t (sunset t + fdivl night 2))) (\<lambda>t.
     modify_formats self t))))"

definition compute_times :: "(pyfloat \<Rightarrow> string) \<Rightarrow> engine \<Rightarrow> error + formatted day_times" where
  "compute_times float_str self =
     ebind (iterate (num_iterations self) (compute_prayer_times float_str self) seed_times)
       (finish_times float_str self)"

text \<open>
  \<^verbatim>\<open>
  def get_times(self, date, coords, timezone, dst=0, format=None):
      self.lat = coords[0]
      self.lng = coords[1]
      self.elv = coords[2] if len(coords) > 2 else 0

      if format is not None:
          self.time_format = format
      if type(date).__name__ == 'date':
          date = (date.year, date.month, date.day)

      self.timeZone = timezone + (1 if dst else 0)
      self.jDate = self.julian(date[0], date[1], date[2]) - self.lng / (15 * 24.0)
      return self.compute_times()
  \<close>
  The coordinates and the date are tuples of numbers, modelled as lists: indexing one
  beyond its length raises IndexError, for \<open>coords\<close> before the format is assigned and
  for \<open>date\<close> after it. (A \<open>datetime.date\<close> is the triple it is converted to.) The
  function returns its result, or the exception it raises, with the engine as the
  assignments before have left it.
\<close>

definition get_times ::
  "(pyfloat \<Rightarrow> string) \<Rightarrow> engine \<Rightarrow> int list \<Rightarrow> pyfloat list \<Rightarrow> pyfloat \<Rightarrow> bool \<Rightarrow> string option
     \<Rightarrow> (error + formatted day_times) \<times> engine" where
  "get_times float_str self date coords timezone dst format =
     (if length coords < 1 then (Inl IndexError, self)
      else
        let self = self\<lparr>lat := coords ! 0\<rparr> in
        if length coords < 2 then (Inl IndexError, self)
        else
          let self = self\<lparr>lng := coords ! 1\<rparr>;
              self = self\<lparr>elv := Some (if 2 < length coords then coords ! 2 else Fin 0)\<rparr>;
              self = (case format of None \<Rightarrow> self | Some f \<Rightarrow> self\<lparr>time_format := f\<rparr>);
              self = self\<lparr>timeZone := timezone + Fin (if dst then 1 else 0)\<rparr>
          in
          if length date < 3 then (Inl IndexError, self)
          else
            let self = self\<lparr>jDate := julian (date ! 0) (date ! 1) (date ! 2)
                                     - fdivl (lng self) (15 * 24.0)\<rparr>
            in (compute_times float_str self, self))"

section \<open>Notions used in the statements\<close>

text \<open>
  The engine a fresh process gets from \<open>PrayTimes(method)\<close>. (\<open>init\<close> on the class as the
  module defines it never raises: theorem \<open>init_params_defined\<close>.)
\<close>

definition PrayTimes :: "string \<Rightarrow> engine" where
  "PrayTimes method = (case init class_state method of Inr self \<Rightarrow> self | Inl e \<Rightarrow> class_state)"

text \<open>
  The parameter names the spec calls recognized, the four of them that the catalog's
  methods carry, and what it means for a dictionary to define a name: the key is
  there and its value is not \<open>None\<close>.
\<close>

definition recognized_params :: "string list" where
  "recognized_params =
     [''imsak'', ''fajr'', ''isha'', ''maghrib'', ''midnight'', ''dhuhr'', ''asr'', ''highLats'']"

definition method_params :: "string list" where
  "method_params = [''fajr'', ''isha'', ''maghrib'', ''midnight'']"

definition defined_in :: "dict \<Rightarrow> string \<Rightarrow> bool" where
  "defined_in d k = (case map_of d k of None \<Rightarrow> False | Some v \<Rightarrow> v \<noteq> PNone)"

text \<open>
  A decimal literal: an optional sign \<open>sg\<close>, digits \<open>ip\<close>, and optionally a point and
  digits \<open>fp\<close>, with a digit on at least one side; and the number it denotes.
\<close>

definition sign_prefix :: "string \<Rightarrow> bool" where
  "sign_prefix sg = (sg = [] \<or> sg = ''+'' \<or> sg = ''-'')"

definition decimal_value :: "string \<Rightarrow> string \<Rightarrow> string \<Rightarrow> real" where
  "decimal_value sg ip fp =
     (if sg = ''-'' then - 1 else 1) * (real (digits_val ip) + real (digits_val fp) / 10 ^ length fp)"

definition decimal_literal :: "string \<Rightarrow> bool" where
  "decimal_literal tok =
     (\<exists>sg ip fp. sign_prefix sg \<and> list_all is_digit ip \<and> list_all is_digit fp \<and>
        (ip \<noteq> [] \<or> fp \<noteq> []) \<and>
        (tok = sg @ ip @ ''.'' @ fp \<or> tok = sg @ ip \<and> fp = []))"

text \<open>
  What \<open>sun_position\<close> computes on a number, as functions on the reals: \<open>fix_real\<close> is
  \<open>fix\<close> for a positive \<open>mode\<close>, and the other names are those of the quantities in
  the formulas of \<open>sun_position\<close> (\<open>g\<close>, \<open>q\<close>, \<open>L\<close>, \<open>e\<close>, \<open>decl\<close>, \<open>eqt\<close>).
\<close>

definition fix_real :: "real \<Rightarrow> real \<Rightarrow> real" where
  "fix_real a m = a - m * of_int \<lfloor>a / m\<rfloor>"

definition mean_anomaly :: "real \<Rightarrow> real" where
  "mean_anomaly jd = fix_real (357.529 + 0.98560028 * (jd - 2451545.0)) 360"

definition mean_longitude :: "real \<Rightarrow> real" where
  "mean_longitude jd = fix_real (280.459 + 0.98564736 * (jd - 2451545.0)) 360"

definition ecliptic_longitude :: "real \<Rightarrow> real" where
  "ecliptic_longitude jd =
     fix_real (mean_longitude jd + 1.915 * sin (radians (mean_anomaly jd))
               + 0.020 * sin (radians (2 * mean_anomaly jd))) 360"

definition obliquity :: "real \<Rightarrow> real" where
  "obliquity jd = 23.439 - 0.00000036 * (jd - 2451545.0)"

definition declination :: "real \<Rightarrow> real" where
  "declination jd =
     degrees (arcsin (sin (radians (obliquity jd)) * sin (radians (ecliptic_longitude jd))))"

definition equation_of_time :: "real \<Rightarrow> real" where
  "equation_of_time jd =
     mean_longitude jd / 15.0
     - fix_real (degrees (atan2 (cos_deg (obliquity jd) * sin (radians (ecliptic_longitude jd)))
                                 (cos_deg (ecliptic_longitude jd))) / 15.0) 24"

text \<open>
  \<open>compute_times\<close> up to its last line: the times as numbers, tuned and not yet
  formatted. \<open>compute_times\<close> is \<open>modify_formats\<close> applied to them (lemma
  \<open>compute_times_unformatted\<close>), and they do not depend on the format the engine holds
  (lemma \<open>unformatted_times_format\<close>).
\<close>

definition unformatted_times :: "(pyfloat \<Rightarrow> string) \<Rightarrow> engine \<Rightarrow> error + pyfloat day_times" where
  "unformatted_times float_str self =
     ebind (iterate (num_iterations self) (compute_prayer_times float_str self) seed_times) (\<lambda>times0.
     ebind (adjust_times float_str self times0) (\<lambda>t.
     ebind (dict_get (settings self) ''midnight'') (\<lambda>rule.
     ebind (if rule = PStr ''Jafari'' then time_diff (sunset t) (fajr t)
            else time_diff (sunset t) (sunrise t)) (\<lambda>night.
     tune_times self (add_midnight t (sunset t + fdivl night 2))))))"

text \<open>
  The engine after a sequence of calls of \<open>get_times\<close> that omit the format, each with
  its own date, coordinates, time zone and daylight saving flag.
\<close>

fun later_calls ::
  "(pyfloat \<Rightarrow> string) \<Rightarrow> engine \<Rightarrow> (int list \<times> pyfloat list \<times> pyfloat \<times> bool) list \<Rightarrow> engine" where
  "later_calls float_str self [] = self"
| "later_calls float_str self ((date, coords, timezone, dst) # calls) =
     later_calls float_str (snd (get_times float_str self date coords timezone dst None)) calls"

text \<open>
  Settings and offsets with which the part of \<open>compute_times\<close> after the iterations
  raises nothing: the five parameters it hands to \<open>eval\<close> are present and parse, the
  keys \<open>highLats\<close> and \<open>midnight\<close> are present, and every time name has an offset
  that is a number.
\<close>

definition parses :: "(pyfloat \<Rightarrow> string) \<Rightarrow> engine \<Rightarrow> string \<Rightarrow> bool" where
  "parses float_str self name =
     (case eval_param float_str self name of Inr v \<Rightarrow> True | Inl e \<Rightarrow> False)"

definition settings_ok :: "(pyfloat \<Rightarrow> string) \<Rightarrow> engine \<Rightarrow> bool" where
  "settings_ok float_str self =
     (list_all (parses float_str self) [''imsak'', ''fajr'', ''isha'', ''maghrib'', ''dhuhr''] \<and>
      map_of (settings self) ''highLats'' \<noteq> None \<and> map_of (settings self) ''midnight'' \<noteq> None)"

definition offsets_ok :: "engine \<Rightarrow> bool" where
  "offsets_ok self =
     list_all (\<lambda>name. case ebind (dict_get (offset self) name) div60 of
                         Inr d \<Rightarrow> True | Inl e \<Rightarrow> False) time_names"

section \<open>Properties of the interface functions\<close>

text \<open>
  Claim C1. \<open>set_method\<close> with a name registered in the catalog should make that name
  the current method and copy the method's parameters into the settings; with an
  unregistered name it changes nothing and does not fail. The second half holds. For a
  registered name the function reads the attribute \<open>params\<close> of a dictionary, which no
  dictionary has: it raises AttributeError before it has changed anything, so neither
  the method identifier nor the settings are set. (\<open>__init__\<close> reads the same entry
  with \<open>['params']\<close>.)
\<close>

theorem set_method_registered_raises:
  "set_method self method =
     (if map_of (methods self) method \<noteq> None then (Inl AttributeError, self)
      else (Inr (), self))"
  by (simp add: set_method_def getattr_dict_def dict_method_names_def)

text \<open>
  Claim C2. \<open>tune\<close> should overwrite the named entries of the offsets and succeed
  without raising. It updates \<open>self.offsets\<close>, while the dictionary the class defines,
  \<open>__init__\<close> fills, \<open>get_offsets\<close> returns and \<open>tune_times\<close> reads is \<open>self.offset\<close>:
  every call raises AttributeError and leaves the engine as it was.
\<close>

theorem tune_raises:
  "tune self timeOffsets = (Inl AttributeError, self)"
  by (simp add: tune_def update_attr_def)

section \<open>Properties of AngleMath\<close>

lemma fix_mode_Fin:
  "m \<noteq> 0 \<Longrightarrow> fix_mode (Fin x) (Fin m) =
     Inr (Fin (if x - m * of_int \<lfloor>x / m\<rfloor> < 0 then x - m * of_int \<lfloor>x / m\<rfloor> + m
               else x - m * of_int \<lfloor>x / m\<rfloor>))"
  by (simp add: fix_mode_def Let_def)

lemma fix_range:
  fixes x m :: real
  assumes "0 < m"
  shows "0 \<le> x - m * of_int \<lfloor>x / m\<rfloor>" and "x - m * of_int \<lfloor>x / m\<rfloor> < m"
  using floor_divide_lower[OF assms, of x] floor_divide_upper[OF assms, of x]
  by (simp_all add: algebra_simps)

lemma fix_mode_pos:
  assumes "0 < m"
  shows "fix_mode (Fin x) (Fin m) = Inr (Fin (x - m * of_int \<lfloor>x / m\<rfloor>))"
  using fix_range[OF assms, of x] assms by (simp add: fix_mode_Fin)

lemma fix_small:
  fixes y m :: real
  assumes "0 \<le> y" and "y < m"
  shows "y - m * of_int \<lfloor>y / m\<rfloor> = y"
proof -
  have "0 < m" using assms by linarith
  then have "0 \<le> y / m" and "y / m < 1" using assms by simp_all
  then have "\<lfloor>y / m\<rfloor> = 0" by linarith
  then show ?thesis by simp
qed

lemma fix_mode_NaN: "fix_mode NaN mode = Inr NaN"
  by (simp add: fix_mode_def)

lemma fixhour_Fin: "fixhour (Fin x) = Inr (Fin (x - 24 * of_int \<lfloor>x / 24\<rfloor>))"
  by (simp add: fixhour_def fix_mode_pos)

lemma fixangle_Fin: "fixangle (Fin x) = Inr (Fin (x - 360 * of_int \<lfloor>x / 360\<rfloor>))"
  by (simp add: fixangle_def fix_mode_pos)

lemma fixhour_NaN: "fixhour NaN = Inr NaN"
  by (simp add: fixhour_def fix_mode_NaN)

lemma fixangle_NaN: "fixangle NaN = Inr NaN"
  by (simp add: fixangle_def fix_mode_NaN)

lemma fdiv_literal: "c \<noteq> 0 \<Longrightarrow> fdiv a (Fin c) = Inr (fdivl a c)"
  by (cases a) simp_all

text \<open>
  In exact arithmetic \<open>fix\<close> does what its name says: for every number \<open>x\<close>,
  \<open>fixangle x\<close> lies in \<open>[0, 360)\<close> and \<open>fixhour x\<close> in \<open>[0, 24)\<close>, both are
  idempotent, and both return NaN for NaN. Neither raises.
\<close>

lemma fix_exact_range:
  "(\<exists>y. fixangle (Fin x) = Inr (Fin y) \<and> 0 \<le> y \<and> y < 360 \<and> fixangle (Fin y) = Inr (Fin y)) \<and>
   (\<exists>h. fixhour (Fin x) = Inr (Fin h) \<and> 0 \<le> h \<and> h < 24 \<and> fixhour (Fin h) = Inr (Fin h)) \<and>
   fixangle NaN = Inr NaN \<and> fixhour NaN = Inr NaN"
proof -
  have a: "\<exists>y. fix_mode (Fin x) (Fin m) = Inr (Fin y) \<and> 0 \<le> y \<and> y < m \<and>
             fix_mode (Fin y) (Fin m) = Inr (Fin y)"
    if "0 < m" for m
    using fix_range[OF that, of x] fix_small[of "x - m * of_int \<lfloor>x / m\<rfloor>" m] that
    by (simp add: fix_mode_pos)
  show ?thesis
    using a[of 360] a[of 24] by (simp add: fixangle_def fixhour_def fix_mode_NaN)
qed

subsection \<open>What fix computes in binary64\<close>

lemma quantum_eq:
  assumes "2 powi k \<le> \<bar>x\<bar>" and "\<bar>x\<bar> < 2 powi (k + 1)" and "- 1022 \<le> k"
  shows "quantum x = 2 powi (k - 52)"
proof -
  have "0 < (2::real) powi k" by simp
  then have "0 < \<bar>x\<bar>" using assms(1) by linarith
  moreover have "(2::real) powr of_int k = 2 powi k" "(2::real) powr (of_int k + 1) = 2 powi (k + 1)"
    using powr_real_of_int'[of "2::real" k] powr_real_of_int'[of "2::real" "k + 1"] by simp_all
  ultimately have "\<lfloor>log 2 \<bar>x\<bar>\<rfloor> = k" using assms(1,2) by (simp add: floor_log_eq_powr_iff)
  then show ?thesis using assms(3) by (simp add: quantum_def)
qed

text \<open>
  The rounding of a number \<open>x\<close> of the binade \<open>k\<close>: the nearest multiple of \<open>2\<close> to the
  power of \<open>k - 52\<close>.
\<close>

lemma rnd64_eq:
  assumes "2 powi k \<le> \<bar>x\<bar>" and "\<bar>x\<bar> < 2 powi (k + 1)" and "- 1022 \<le> k"
    and "round_even (x / 2 powi (k - 52)) = n"
  shows "rnd64 x = of_int n * 2 powi (k - 52)"
proof -
  have "0 < (2::real) powi k" by simp
  then have "0 < \<bar>x\<bar>" using assms(1) by linarith
  then have "x \<noteq> 0" by simp
  then show ?thesis by (simp add: rnd64_def quantum_eq[OF assms(1-3)] assms(4))
qed

lemma rnd64_24: "rnd64 24 = 24" "rnd64 (- 24) = - 24"
  using rnd64_eq[of 4 24 "24 * 2 ^ 48"] rnd64_eq[of 4 "- 24" "- (24 * 2 ^ 48)"]
  by (simp_all add: round_even_def)

lemma rnd64_360: "rnd64 360 = 360" "rnd64 (- 360) = - 360"
  using rnd64_eq[of 8 360 "360 * 2 ^ 44"] rnd64_eq[of 8 "- 360" "- (360 * 2 ^ 44)"]
  by (simp_all add: round_even_def)

lemma rnd64_1: "rnd64 1 = 1"
  using rnd64_eq[of 0 1 "2 ^ 52"] by (simp add: round_even_def)

text \<open>
  The binary64 number nearest to \<open>-1e-17\<close> is \<open>- 6490371073168535 / 2^109\<close>
  (\<open>-0x1.70ef54646d497p-57\<close>). Added to 24 or to 360 it is less than half a quantum
  below them, and the sum rounds to 24 and to 360.
\<close>

lemma rnd64_tiny: "rnd64 (- (6490371073168535 / 2 ^ 109)) = - (6490371073168535 / 2 ^ 109)"
  using rnd64_eq[of "- 57" "- (6490371073168535 / 2 ^ 109)" "- 6490371073168535"]
  by (simp add: round_even_def)

lemma rnd64_below_24: "rnd64 (24 - 6490371073168535 / 2 ^ 109) = 24"
  using rnd64_eq[of 4 "24 - 6490371073168535 / 2 ^ 109" "24 * 2 ^ 48"]
  by (simp add: round_even_def)

lemma rnd64_below_360: "rnd64 (360 - 6490371073168535 / 2 ^ 109) = 360"
  using rnd64_eq[of 8 "360 - 6490371073168535 / 2 ^ 109" "360 * 2 ^ 44"]
  by (simp add: round_even_def)

lemma rnd64_tiny_24:
  "rnd64 (- (6490371073168535 / 2 ^ 109) / 24) = - (8653828097558047 / 2 ^ 114)"
  using rnd64_eq[of "- 62" "- (6490371073168535 / 2 ^ 109) / 24" "- 8653828097558047"]
  by (simp add: round_even_def)

lemma rnd64_tiny_360:
  "rnd64 (- (6490371073168535 / 2 ^ 109) / 360) = - (4615374985364292 / 2 ^ 117)"
  using rnd64_eq[of "- 65" "- (6490371073168535 / 2 ^ 109) / 360" "- 4615374985364292"]
  by (simp add: round_even_def)

lemma fixhour64_tiny: "fixhour64 (Fin (- (6490371073168535 / 2 ^ 109))) = Inr (Fin 24)"
  using rnd64_tiny_24 rnd64_24 rnd64_below_24
  by (simp add: fixhour64_def fix64_def)

lemma fixangle64_tiny: "fixangle64 (Fin (- (6490371073168535 / 2 ^ 109))) = Inr (Fin 360)"
  using rnd64_tiny_360 rnd64_360 rnd64_below_360
  by (simp add: fixangle64_def fix64_def)

lemma fixhour64_24: "fixhour64 (Fin 24) = Inr (Fin 0)"
  using rnd64_1 rnd64_24 by (simp add: fixhour64_def fix64_def rnd64_def)

lemma fixangle64_360: "fixangle64 (Fin 360) = Inr (Fin 0)"
  using rnd64_1 rnd64_360 by (simp add: fixangle64_def fix64_def rnd64_def)

text \<open>
  Claim C9. For every finite \<open>x\<close>, \<open>fixangle(x)\<close> was claimed to lie in \<open>[0, 360)\<close> and
  \<open>fixhour(x)\<close> in \<open>[0, 24)\<close>, and both to be idempotent. \<open>fix\<close> reduces \<open>a\<close> by
  \<open>mode * floor(a / mode)\<close> and adds \<open>mode\<close> to a negative result, which is this
  reduction, and in exact arithmetic it succeeds (lemma \<open>fix_exact_range\<close>). In
  binary64 it fails for a negative \<open>x\<close> next to zero: at the binary64 number
  \<open>-1e-17\<close> the quotient \<open>a / mode\<close> has the floor \<open>-1\<close>, the reduction is \<open>x + mode\<close>
  and rounds to \<open>mode\<close> itself, which is not negative and is returned. So \<open>fixhour\<close>
  returns \<open>24.0\<close> and \<open>fixangle\<close> \<open>360.0\<close>, outside the half-open ranges, and a second
  application returns \<open>0.0\<close>, another value.
\<close>

theorem fix64_returns_mode:
  "rnd64 (- (6490371073168535 / 2 ^ 109)) = - (6490371073168535 / 2 ^ 109) \<and>
   fixhour64 (Fin (- (6490371073168535 / 2 ^ 109))) = Inr (Fin 24) \<and>
   fixhour64 (Fin 24) = Inr (Fin 0) \<and>
   fixangle64 (Fin (- (6490371073168535 / 2 ^ 109))) = Inr (Fin 360) \<and>
   fixangle64 (Fin 360) = Inr (Fin 0)"
  using rnd64_tiny fixhour64_tiny fixhour64_24 fixangle64_tiny fixangle64_360 by blast

text \<open>
  Claim C6. For \<open>|x| > 1\<close> the helpers \<open>arccos\<close> and \<open>arcsin\<close> were claimed to return
  NaN instead of raising. They raise: \<open>math.acos\<close> and \<open>math.asin\<close> raise ValueError
  outside \<open>[-1, 1]\<close> and the helpers do not catch it. The NaN is made by the caller
  \<open>sun_angle_time\<close>, whose \<open>except ValueError\<close> clause returns it.
\<close>

theorem arccos_arcsin_raise:
  "1 < \<bar>x\<bar> \<Longrightarrow> arccos_d (Fin x) = Inl ValueError \<and> arcsin_d (Fin x) = Inl ValueError"
  by auto

theorem arccos_arcsin_raise_witness:
  "1 < \<bar>2 :: real\<bar> \<and> arccos_d (Fin 2) = Inl ValueError \<and> arcsin_d (Fin 2) = Inl ValueError"
  using arccos_arcsin_raise[of 2] by simp

theorem arccos_nan_counterexample:
  "arccos_d (Fin 2) \<noteq> Inr NaN \<and> arcsin_d (Fin (- 2)) \<noteq> Inr NaN"
  by simp

section \<open>Properties of the catalog\<close>

lemma merged_catalog:
  "map (\<lambda>(method_name, config). (method_name, config\<lparr>params := merge_defaults (params config)\<rparr>))
     (methods class_state) =
   [(''MWL'', \<lparr>m_name = ''Muslim World League'',
              params = [(''fajr'', PInt 18), (''isha'', PInt 17),
                        (''maghrib'', PStr ''0 min''), (''midnight'', PStr ''Standard'')]\<rparr>),
    (''ISNA'', \<lparr>m_name = ''Islamic Society of North America (ISNA)'',
               params = [(''fajr'', PInt 15), (''isha'', PInt 15),
                         (''maghrib'', PStr ''0 min''), (''midnight'', PStr ''Standard'')]\<rparr>),
    (''Egypt'', \<lparr>m_name = ''Egyptian General Authority of Survey'',
                params = [(''fajr'', PFloat (Fin 19.5)), (''isha'', PFloat (Fin 17.5)),
                          (''maghrib'', PStr ''0 min''), (''midnight'', PStr ''Standard'')]\<rparr>),
    (''Makkah'', \<lparr>m_name = ''Umm Al-Qura University, Makkah'',
                 params = [(''fajr'', PFloat (Fin 18.5)), (''isha'', PStr ''90 min''),
                           (''maghrib'', PStr ''0 min''), (''midnight'', PStr ''Standard'')]\<rparr>),
    (''Karachi'', \<lparr>m_name = ''University of Islamic Sciences, Karachi'',
                  params = [(''fajr'', PInt 18), (''isha'', PInt 18),
                            (''maghrib'', PStr ''0 min''), (''midnight'', PStr ''Standard'')]\<rparr>),
    (''Tehran'', \<lparr>m_name = ''Institute of Geophysics, University of Tehran'',
                 params = [(''fajr'', PFloat (Fin 17.7)), (''isha'', PInt 14),
                           (''maghrib'', PFloat (Fin 4.5)), (''midnight'', PStr ''Jafari'')]\<rparr>),
    (''Jafari'', \<lparr>m_name = ''Shia Ithna-Ashari, Leva Institute, Qum'',
                 params = [(''fajr'', PInt 16), (''isha'', PInt 14),
                           (''maghrib'', PInt 4), (''midnight'', PStr ''Jafari'')]\<rparr>)]"
  by (simp add: class_state_def merge_defaults_def default_params_def)

text \<open>
  Claim C4. After construction every method of the catalog was claimed to define every
  recognized parameter name (imsak, fajr, isha, maghrib, midnight, dhuhr, asr,
  highLats). The defaults merged into a method are \<open>maghrib\<close> and \<open>midnight\<close> only, so
  a method defines \<open>fajr\<close>, \<open>isha\<close>, \<open>maghrib\<close> and \<open>midnight\<close> and nothing else; the
  other four names are defined by the settings, which construction completes with the
  selected method's parameters and which are what the engine looks parameters up in.
  Construction succeeds for every method name.
\<close>

theorem init_params_defined:
  "\<exists>e. init class_state m = Inr e \<and>
     (\<forall>(n, config) \<in> set (methods e). \<forall>p \<in> set method_params. defined_in (params config) p) \<and>
     (\<forall>p \<in> set recognized_params. defined_in (settings e) p)"
  unfolding init_def Let_def merged_catalog
  by (simp add: class_state_def dict_update_def defined_in_def method_params_def recognized_params_def)

theorem init_params_defined_witness:
  "\<exists>e n config. init class_state ''Tehran'' = Inr e \<and> (n, config) \<in> set (methods e) \<and>
     ''maghrib'' \<in> set method_params \<and> defined_in (params config) ''maghrib'' \<and>
     ''highLats'' \<in> set recognized_params \<and> defined_in (settings e) ''highLats''"
proof -
  obtain e where e: "init class_state ''Tehran'' = Inr e"
    and m: "\<forall>(n, config) \<in> set (methods e). \<forall>p \<in> set method_params. defined_in (params config) p"
    and s: "\<forall>p \<in> set recognized_params. defined_in (settings e) p"
    using init_params_defined[of "''Tehran''"] by blast
  have "methods e \<noteq> []"
    using e unfolding init_def Let_def merged_catalog by (auto split: option.splits)
  then obtain n config where mem: "(n, config) \<in> set (methods e)"
    by (cases "methods e") auto
  have a: "''maghrib'' \<in> set method_params" and b: "''highLats'' \<in> set recognized_params"
    by (simp_all add: method_params_def recognized_params_def)
  from m mem a have "defined_in (params config) ''maghrib''" by blast
  moreover from s b have "defined_in (settings e) ''highLats''" by blast
  ultimately show ?thesis using e mem a b by blast
qed

theorem method_params_counterexample:
  "\<exists>e config. init class_state ''ISNA'' = Inr e \<and> map_of (methods e) ''MWL'' = Some config \<and>
     ''imsak'' \<in> set recognized_params \<and> dict_get (params config) ''imsak'' = Inl KeyError"
  unfolding init_def Let_def merged_catalog
  by (simp add: class_state_def dict_update_def dict_get_def recognized_params_def)

section \<open>Properties of eval\<close>

lemma eval_str_arg: "eval float_str (PStr s) = eval_str s"
  by (simp add: eval_def)

lemma digit_not_sign: "is_digit c \<Longrightarrow> c \<noteq> CHR ''-'' \<and> c \<noteq> CHR ''+'' \<and> c \<noteq> CHR ''.''"
  by (auto simp: is_digit_def)

lemma takeWhile_digits_point:
  "list_all is_digit ip \<Longrightarrow> takeWhile is_digit (ip @ CHR ''.'' # fp) = ip"
  "list_all is_digit ip \<Longrightarrow> dropWhile is_digit (ip @ CHR ''.'' # fp) = CHR ''.'' # fp"
  by (induction ip) (auto simp: is_digit_def)

lemma takeWhile_digits:
  "list_all is_digit ip \<Longrightarrow> takeWhile is_digit ip = ip"
  "list_all is_digit ip \<Longrightarrow> dropWhile is_digit ip = []"
  by (induction ip) auto

lemma sign_split_unsigned:
  "list_all is_digit ip \<Longrightarrow> sign_split (ip @ CHR ''.'' # fp) = (False, ip @ CHR ''.'' # fp)"
  "list_all is_digit ip \<Longrightarrow> sign_split ip = (False, ip)"
  by (cases ip; auto simp: sign_split_def dest: digit_not_sign)+

lemma sign_split_signed:
  "sign_split (CHR ''+'' # body) = (False, body)"
  "sign_split (CHR ''-'' # body) = (True, body)"
  by (simp_all add: sign_split_def)

lemma float_of_str_point:
  assumes "sign_prefix sg" "list_all is_digit ip" "list_all is_digit fp" "ip \<noteq> [] \<or> fp \<noteq> []"
  shows "float_of_str (sg @ ip @ ''.'' @ fp) = Inr (decimal_value sg ip fp)"
proof -
  from assms(1) consider "sg = []" | "sg = ''+''" | "sg = ''-''" by (auto simp: sign_prefix_def)
  then show ?thesis
  proof cases
    case 1
    then show ?thesis using assms(2-4)
      by (simp add: float_of_str_def sign_split_unsigned takeWhile_digits_point point_split_def
            decimal_value_def)
  next
    case 2
    then show ?thesis using assms(2-4)
      by (simp add: float_of_str_def sign_split_signed takeWhile_digits_point point_split_def
            decimal_value_def)
  next
    case 3
    then show ?thesis using assms(2-4)
      by (simp add: float_of_str_def sign_split_signed takeWhile_digits_point point_split_def
            decimal_value_def)
  qed
qed

lemma float_of_str_int:
  assumes "sign_prefix sg" "list_all is_digit ip" "ip \<noteq> []"
  shows "float_of_str (sg @ ip) = Inr (decimal_value sg ip [])"
proof -
  from assms(1) consider "sg = []" | "sg = ''+''" | "sg = ''-''" by (auto simp: sign_prefix_def)
  then show ?thesis
  proof cases
    case 1
    then show ?thesis using assms(2-3)
      by (simp add: float_of_str_def sign_split_unsigned takeWhile_digits point_split_def
            decimal_value_def digits_val_def)
  next
    case 2
    then show ?thesis using assms(2-3)
      by (simp add: float_of_str_def sign_split_signed takeWhile_digits point_split_def
            decimal_value_def digits_val_def)
  next
    case 3
    then show ?thesis using assms(2-3)
      by (simp add: float_of_str_def sign_split_signed takeWhile_digits point_split_def
            decimal_value_def digits_val_def)
  qed
qed

lemma takeWhile_all_digits: "list_all is_digit (takeWhile is_digit body)"
  by (induction body) auto

lemma body_literal:
  assumes "point_split (dropWhile is_digit body) = (True, fp)"
    and "takeWhile is_digit body \<noteq> [] \<or> fp \<noteq> []"
  shows "\<exists>ip fp. list_all is_digit ip \<and> list_all is_digit fp \<and> (ip \<noteq> [] \<or> fp \<noteq> []) \<and>
           (body = ip @ ''.'' @ fp \<or> body = ip \<and> fp = [])"
proof (cases "dropWhile is_digit body")
  case Nil
  have "takeWhile is_digit body = body"
    using Nil by (simp add: takeWhile_eq_all_conv)
  then have b: "body = takeWhile is_digit body" by (rule sym)
  have fp: "fp = []" using assms(1) Nil by (simp add: point_split_def)
  show ?thesis
    apply (rule exI[of _ "takeWhile is_digit body"])
    apply (rule exI[of _ "[]"])
    using b fp assms(2) takeWhile_all_digits[of body] by simp
next
  case (Cons c r)
  then have c: "c = CHR ''.''" and r: "list_all is_digit r" and fp: "fp = r"
    using assms(1) by (auto simp: point_split_def)
  have "takeWhile is_digit body @ c # r = body"
    using takeWhile_dropWhile_id[of is_digit body] by (simp only: Cons)
  then have b: "body = takeWhile is_digit body @ ''.'' @ r"
    unfolding c by (simp only: append_Cons append_Nil)
  show ?thesis
    apply (rule exI[of _ "takeWhile is_digit body"])
    apply (rule exI[of _ r])
    using b fp r assms(2) takeWhile_all_digits[of body] by simp
qed

lemma sign_split_prefix:
  "sign_split tok = (neg, body) \<Longrightarrow> \<exists>sg. sign_prefix sg \<and> tok = sg @ body"
  by (cases tok) (auto simp: sign_split_def sign_prefix_def split: if_splits)

lemma float_of_str_ok:
  assumes "float_of_str tok = Inr v"
  shows "decimal_literal tok"
proof -
  obtain neg body where sb: "sign_split tok = (neg, body)" by (cases "sign_split tok")
  obtain wf fp where wf: "point_split (dropWhile is_digit body) = (wf, fp)"
    by (cases "point_split (dropWhile is_digit body)")
  from sb obtain sg where sg: "sign_prefix sg" "tok = sg @ body"
    using sign_split_prefix by blast
  have "wf \<and> (takeWhile is_digit body \<noteq> [] \<or> fp \<noteq> [])"
    using assms by (simp add: float_of_str_def sb wf Let_def split: if_splits)
  then have "point_split (dropWhile is_digit body) = (True, fp)"
    and "takeWhile is_digit body \<noteq> [] \<or> fp \<noteq> []"
    using wf by simp_all
  then have "\<exists>ip fp. list_all is_digit ip \<and> list_all is_digit fp \<and> (ip \<noteq> [] \<or> fp \<noteq> []) \<and>
           (body = ip @ ''.'' @ fp \<or> body = ip \<and> fp = [])"
    by (rule body_literal)
  then obtain ip fp' where "list_all is_digit ip" "list_all is_digit fp'" "ip \<noteq> [] \<or> fp' \<noteq> []"
      "body = ip @ ''.'' @ fp' \<or> body = ip \<and> fp' = []"
    by blast
  then show ?thesis unfolding decimal_literal_def using sg by blast
qed

lemma float_of_str_literal:
  assumes "decimal_literal tok"
  shows "\<exists>v. float_of_str tok = Inr v"
  using assms float_of_str_point float_of_str_int unfolding decimal_literal_def by blast

lemma float_of_str_error: "float_of_str tok = Inl e \<Longrightarrow> e = ValueError"
  by (cases "sign_split tok"; cases "point_split (dropWhile is_digit (snd (sign_split tok)))")
     (simp add: float_of_str_def Let_def split: if_splits)

text \<open>
  Claim C5. \<open>eval\<close> was claimed to return the value of the leading token of digits,
  points and signs, to return 0 for empty or unparseable text, and never to raise. It
  returns 0 when the token is empty (the text is empty or starts with another
  character) and the value of the token when the token is a decimal literal; for every
  other token, such as \<open>-\<close>, \<open>1.2.3\<close> or \<open>5-10\<close>, \<open>float\<close> raises ValueError and
  \<open>eval\<close> with it. (For a text \<open>s\<close>, \<open>eval\<close> is \<open>eval_str s\<close>: lemma \<open>eval_str_arg\<close>.)
\<close>

theorem eval_str_cases:
  "(leading_token s = [] \<longrightarrow> eval_str s = Inr 0) \<and>
   (\<forall>sg ip fp. sign_prefix sg \<and> list_all is_digit ip \<and> list_all is_digit fp \<and>
       (ip \<noteq> [] \<or> fp \<noteq> []) \<and>
       (leading_token s = sg @ ip @ ''.'' @ fp \<or> leading_token s = sg @ ip \<and> fp = [])
       \<longrightarrow> eval_str s = Inr (decimal_value sg ip fp)) \<and>
   (leading_token s \<noteq> [] \<and> \<not> decimal_literal (leading_token s) \<longrightarrow> eval_str s = Inl ValueError)"
proof (intro conjI allI impI)
  show "eval_str s = Inr 0" if "leading_token s = []"
    using that by (simp add: eval_str_def)
next
  fix sg ip fp
  assume a: "sign_prefix sg \<and> list_all is_digit ip \<and> list_all is_digit fp \<and>
       (ip \<noteq> [] \<or> fp \<noteq> []) \<and>
       (leading_token s = sg @ ip @ ''.'' @ fp \<or> leading_token s = sg @ ip \<and> fp = [])"
  then have ne: "leading_token s \<noteq> []" by auto
  from a consider "leading_token s = sg @ ip @ ''.'' @ fp"
    | "leading_token s = sg @ ip" "fp = []" "ip \<noteq> []"
    by auto
  then show "eval_str s = Inr (decimal_value sg ip fp)"
  proof cases
    case 1
    then show ?thesis
      using a float_of_str_point[of sg ip fp] ne by (simp add: eval_str_def Let_def)
  next
    case 2
    then show ?thesis
      using a float_of_str_int[of sg ip] ne by (simp add: eval_str_def Let_def)
  qed
next
  assume a: "leading_token s \<noteq> [] \<and> \<not> decimal_literal (leading_token s)"
  then have "\<not> (\<exists>v. float_of_str (leading_token s) = Inr v)"
    using float_of_str_ok by blast
  then obtain e where "float_of_str (leading_token s) = Inl e"
    by (cases "float_of_str (leading_token s)") auto
  then show "eval_str s = Inl ValueError"
    using a float_of_str_error by (auto simp: eval_str_def Let_def)
qed

lemma leading_token_abc: "leading_token ''abc'' = []"
  by (simp add: leading_token_def numeric_char_def)

lemma leading_token_decimal: "leading_token ''-12.50 min'' = ''-'' @ ''12'' @ ''.'' @ ''50''"
  by (simp add: leading_token_def numeric_char_def)

lemma leading_token_range: "leading_token ''5-10 min'' = ''5-10''"
  by (simp add: leading_token_def numeric_char_def)

lemma float_of_str_range: "float_of_str ''5-10'' = Inl ValueError"
  by (simp add: float_of_str_def sign_split_def point_split_def is_digit_def)

lemma decimal_value_example: "decimal_value ''-'' ''12'' ''50'' = - 12.5"
  by (simp add: decimal_value_def digits_val_def digit_val_def)

theorem eval_str_cases_witness:
  "leading_token ''abc'' = [] \<and> eval_str ''abc'' = Inr 0 \<and>
   leading_token ''-12.50 min'' = ''-'' @ ''12'' @ ''.'' @ ''50'' \<and>
   eval_str ''-12.50 min'' = Inr (- 12.5) \<and>
   leading_token ''5-10 min'' \<noteq> [] \<and> \<not> decimal_literal (leading_token ''5-10 min'') \<and>
   eval_str ''5-10 min'' = Inl ValueError"
proof -
  have nl: "\<not> decimal_literal (leading_token ''5-10 min'')"
    using float_of_str_literal[of "''5-10''"]
    by (auto simp: leading_token_range float_of_str_range)
  have d: "sign_prefix ''-'' \<and> list_all is_digit ''12'' \<and> list_all is_digit ''50''"
    by (simp add: sign_prefix_def is_digit_def)
  have 1: "eval_str ''abc'' = Inr 0"
    using eval_str_cases[of "''abc''"] leading_token_abc by blast
  have 2: "eval_str ''-12.50 min'' = Inr (decimal_value ''-'' ''12'' ''50'')"
    using eval_str_cases[of "''-12.50 min''"] leading_token_decimal d by blast
  have 3: "eval_str ''5-10 min'' = Inl ValueError"
    using eval_str_cases[of "''5-10 min''"] nl leading_token_range by auto
  show ?thesis
    using 1 2 3 nl leading_token_abc leading_token_decimal leading_token_range
      decimal_value_example by simp
qed

theorem eval_str_raises_counterexample:
  "eval_str ''-'' = Inl ValueError \<and> eval_str ''1.2.3 min'' = Inl ValueError"
  by (simp add: eval_str_def leading_token_def numeric_char_def float_of_str_def sign_split_def
        point_split_def is_digit_def)

section \<open>Properties of the solver\<close>

lemma fixhour_total: "\<exists>h. fixhour a = Inr h"
  by (cases a) (simp_all add: fixhour_Fin fixhour_NaN)

lemma sin_prod_bounds: "- 1 \<le> sin a * sin b \<and> sin a * sin b \<le> (1::real)"
proof -
  have "\<bar>sin a * sin b\<bar> \<le> 1 * 1"
    unfolding abs_mult by (rule mult_mono) (simp_all add: abs_sin_le_one)
  then show ?thesis by (simp add: abs_le_iff)
qed

lemma fixangle_real: "fixangle (Fin a) = Inr (Fin (fix_real a 360))"
  by (simp add: fixangle_Fin fix_real_def)

lemma fixhour_real: "fixhour (Fin a) = Inr (Fin (fix_real a 24))"
  by (simp add: fixhour_Fin fix_real_def)

lemma arcsin_d_prod:
  "arcsin_d (Fin (sin a * sin b)) = Inr (Fin (degrees (arcsin (sin a * sin b))))"
  using sin_prod_bounds[of a b] by simp

lemma sun_position_Fin:
  "sun_position (Fin jd) = Inr (Fin (declination jd), Fin (equation_of_time jd))"
  unfolding sun_position_def Let_def
  apply (simp only: minus_pyfloat.simps times_pyfloat.simps plus_pyfloat.simps fixangle_real
           ebind.simps sin_d.simps cos_d.simps arctan2.simps fdivl.simps fixhour_real arcsin_d_prod)
  apply (simp only: declination_def equation_of_time_def ecliptic_longitude_def obliquity_def
           mean_longitude_def mean_anomaly_def)
  done

lemma sun_position_NaN: "sun_position NaN = Inr (NaN, NaN)"
  by (simp add: sun_position_def Let_def fixangle_NaN fixhour_NaN)

lemma sun_position_total: "\<exists>decl eqt. sun_position jd = Inr (decl, eqt)"
  by (cases jd) (simp_all add: sun_position_Fin sun_position_NaN)

lemma mid_day_total: "\<exists>noon. mid_day self time = Inr noon"
proof -
  obtain decl eqt where "sun_position (jDate self + time) = Inr (decl, eqt)"
    using sun_position_total by blast
  then show ?thesis using fixhour_total[of "Fin 12 - eqt"] by (simp add: mid_day_def)
qed

lemma sun_angle_time_arg:
  assumes sp: "sun_position (jDate self + time) = Inr (decl, eqt)"
    and md: "mid_day self time = Inr noon"
    and arg: "hour_angle_arg self angle decl = Inr (Fin x)"
  shows "sun_angle_time self angle time direction =
           (if x < - 1 \<or> 1 < x then Inr NaN
            else Inr (if direction = Some ''ccw'' then noon - Fin (degrees (arccos x) / 15)
                      else noon + Fin (degrees (arccos x) / 15)))"
  by (cases noon) (simp_all add: sun_angle_time_def sp md arg Let_def)

lemma radians_degrees: "radians (degrees y) = y"
  by (simp add: radians_def degrees_def)

lemma sin_acute:
  assumes "0 < e" and "e < pi / 2"
  shows "0 < sin e" and "sin e < 1"
proof -
  show "0 < sin e" using assms pi_gt_zero by (intro sin_gt_zero) linarith+
  have "sin e < sin (pi / 2)"
    using assms by (intro sin_monotone_2pi) linarith+
  then show "sin e < 1" by simp
qed

lemma cos_declination_pos:
  assumes "0 < obliquity jd" and "obliquity jd < 90"
  shows "0 < cos (radians (declination jd))"
proof -
  let ?e = "radians (obliquity jd)"
  let ?L = "radians (ecliptic_longitude jd)"
  have e: "0 < ?e" "?e < pi / 2" using assms pi_gt_zero by (simp_all add: radians_def)
  have s: "0 < sin ?e" "sin ?e < 1" using sin_acute[OF e] by simp_all
  have "\<bar>sin ?e * sin ?L\<bar> \<le> sin ?e * 1"
    unfolding abs_mult using s by (intro mult_mono) (simp_all add: abs_sin_le_one)
  then have lt: "\<bar>sin ?e * sin ?L\<bar> < 1" using s by linarith
  then have b: "- 1 < sin ?e * sin ?L" "sin ?e * sin ?L < 1" by linarith+
  have "cos (arcsin (sin ?e * sin ?L)) = sqrt (1 - (sin ?e * sin ?L)\<^sup>2)"
    using b by (intro cos_arcsin) simp_all
  moreover have "(sin ?e * sin ?L)\<^sup>2 < 1"
    using lt by (simp add: abs_square_less_1)
  ultimately show ?thesis by (simp add: declination_def radians_degrees)
qed

lemma degrees_arccos_0: "degrees (arccos 0) / 15 = 6"
  by (simp add: degrees_def arccos_0)

lemma cos_deg_nonzero: "cos_deg d \<noteq> 0"
  by (simp add: cos_deg_def)

lemma cos_deg_exact: "cos (radians d) \<noteq> 0 \<Longrightarrow> cos_deg d = cos (radians d)"
  by (simp add: cos_deg_def)

lemma cos_deg_90: "cos_deg 90 = 6123233995736766 / 10 ^ 32"
  by (simp add: cos_deg_def radians_def)

lemma hour_angle_arg_Fin:
  assumes "lat self = Fin \<phi>"
  shows "hour_angle_arg self (Fin a) (Fin d) =
           Inr (Fin ((- sin (radians a) - sin (radians d) * sin (radians \<phi>))
                     / (cos_deg d * cos_deg \<phi>)))"
  by (simp add: hour_angle_arg_def assms cos_deg_nonzero)

lemma hour_angle_arg_NaN:
  assumes "angle = NaN \<or> decl = NaN \<or> lat self = NaN"
  shows "hour_angle_arg self angle decl = Inr NaN"
  using assms
  by (cases angle; cases decl; cases "lat self") (simp_all add: hour_angle_arg_def cos_deg_nonzero)

lemma sun_angle_time_NaN:
  assumes sp: "sun_position (jDate self + time) = Inr (decl, eqt)"
    and "angle = NaN \<or> decl = NaN \<or> lat self = NaN"
  shows "sun_angle_time self angle time direction = Inr NaN"
proof -
  obtain noon where md: "mid_day self time = Inr noon" using mid_day_total by blast
  show ?thesis
    by (cases noon)
       (simp_all add: sun_angle_time_def sp md hour_angle_arg_NaN[OF assms(2)] Let_def)
qed

subsection \<open>The sun within half a day of the epoch\<close>

text \<open>
  Within half a day of the epoch 2451545.0 (noon of 1 January 2000) the sun's ecliptic
  longitude is between 277 and 283 degrees and its declination between -24 and 0
  degrees, with a sine of at most \<open>- 1 / 8\<close>. At the latitude of 89 degrees the
  quotient of the hour-angle equation for the angle 0.833 of sunrise and sunset is then
  above 1: it is the polar night.
\<close>

lemma fix_real_small: "0 \<le> y \<Longrightarrow> y < m \<Longrightarrow> fix_real y m = y"
  by (simp add: fix_real_def fix_small)

lemma near_epoch:
  assumes "\<bar>jd - 2451545\<bar> \<le> 1 / 2"
  shows "2451544.5 \<le> jd" and "jd \<le> (2451545.5 :: real)"
  using assms by linarith+

lemma mean_longitude_bounds:
  assumes "\<bar>jd - 2451545\<bar> \<le> 1 / 2"
  shows "279 \<le> mean_longitude jd" and "mean_longitude jd \<le> 281"
proof -
  let ?q = "280.459 + 0.98564736 * (jd - 2451545.0)"
  have b: "279 \<le> ?q" "?q \<le> 281" using near_epoch[OF assms] by (simp_all add: field_simps)
  then have "fix_real ?q 360 = ?q" by (intro fix_real_small) linarith+
  then show "279 \<le> mean_longitude jd" and "mean_longitude jd \<le> 281"
    using b by (simp_all add: mean_longitude_def)
qed

lemma correction_bounds:
  fixes q s1 s2 :: real
  assumes "279 \<le> q" and "q \<le> 281" and "- 1 \<le> s1" and "s1 \<le> 1" and "- 1 \<le> s2" and "s2 \<le> 1"
  shows "277 \<le> q + 1.915 * s1 + 0.020 * s2" and "q + 1.915 * s1 + 0.020 * s2 \<le> 283"
  using assms by (simp_all add: field_simps)

lemma ecliptic_longitude_bounds:
  assumes "\<bar>jd - 2451545\<bar> \<le> 1 / 2"
  shows "277 \<le> ecliptic_longitude jd" and "ecliptic_longitude jd \<le> 283"
proof -
  let ?s1 = "sin (radians (mean_anomaly jd))"
  let ?s2 = "sin (radians (2 * mean_anomaly jd))"
  let ?raw = "mean_longitude jd + 1.915 * ?s1 + 0.020 * ?s2"
  have b: "277 \<le> ?raw" "?raw \<le> 283"
    by (rule correction_bounds[OF mean_longitude_bounds[OF assms] sin_ge_minus_one sin_le_one
          sin_ge_minus_one sin_le_one])+
  then have "fix_real ?raw 360 = ?raw" by (intro fix_real_small) linarith+
  then show "277 \<le> ecliptic_longitude jd" and "ecliptic_longitude jd \<le> 283"
    using b by (simp_all add: ecliptic_longitude_def)
qed

lemma sin_fourth_quadrant:
  assumes "270 \<le> L" and "L \<le> 330"
  shows "sin (radians L) \<le> - (1 / 2)"
proof -
  let ?r = "radians (L - 270)"
  have r: "0 \<le> ?r" "?r \<le> pi / 3" using assms pi_gt_zero by (simp_all add: radians_def)
  have e: "radians L = 3 / 2 * pi + ?r" by (simp add: radians_def field_simps)
  have "sin (3 / 2 * pi + ?r) = - cos ?r"
    unfolding sin_add sin_3over2_pi cos_3over2_pi by simp
  then have "sin (radians L) = - cos ?r" by (simp only: e)
  moreover have "cos (pi / 3) \<le> cos ?r"
    using r pi_gt_zero by (intro cos_monotone_0_pi_le) linarith+
  ultimately show ?thesis by (simp add: cos_60)
qed

lemma sin_ge_quarter:
  assumes "15 \<le> e" and "e \<le> 45"
  shows "1 / 4 \<le> sin (radians e)"
proof -
  let ?x = "radians e"
  have x: "pi / 6 \<le> 2 * ?x" "2 * ?x \<le> pi / 2" "0 \<le> ?x" "?x \<le> pi"
    using assms pi_gt_zero by (simp_all add: radians_def)
  have "sin (pi / 6) \<le> sin (2 * ?x)"
    using x pi_gt_zero by (intro sin_monotone_2pi_le) linarith+
  then have 1: "1 / 2 \<le> 2 * sin ?x * cos ?x" by (simp add: sin_30 sin_double)
  have 2: "0 \<le> sin ?x" using x by (intro sin_ge_zero) linarith+
  have "sin ?x * cos ?x \<le> sin ?x * 1"
    using 2 by (intro mult_left_mono) simp_all
  then show ?thesis using 1 by linarith
qed

lemma lat_89:
  shows "1 / 2 \<le> sin (radians 89)" and "0 < cos (radians 89)" and "cos (radians 89) < 1 / 45"
proof -
  have "sin (pi / 6) \<le> sin (radians 89)"
    using pi_gt_zero by (intro sin_monotone_2pi_le) (simp_all add: radians_def)
  then show "1 / 2 \<le> sin (radians 89)" by (simp add: sin_30)
  have e: "radians 89 = pi / 2 - radians 1" by (simp add: radians_def field_simps)
  have "cos (pi / 2 - radians 1) = sin (radians 1)"
    unfolding cos_diff by simp
  then have c: "cos (radians 89) = sin (radians 1)" by (simp only: e)
  have r: "0 < radians 1" "radians 1 < pi" "radians 1 < 1 / 45"
    using pi_gt_zero pi_less_4 by (simp_all add: radians_def)
  show "0 < cos (radians 89)" unfolding c using r by (intro sin_gt_zero)
  have "sin (radians 1) \<le> radians 1" using r by (intro sin_x_le_x) simp
  then show "cos (radians 89) < 1 / 45" unfolding c using r by linarith
qed

lemma sin_rise_set: "sin (radians 0.833) < 1 / 50"
proof -
  have "sin (radians 0.833) \<le> radians 0.833"
    using pi_gt_zero by (intro sin_x_le_x) (simp add: radians_def)
  moreover have "radians 0.833 < 1 / 50" using pi_less_4 by (simp add: radians_def)
  ultimately show ?thesis by linarith
qed

lemma sin_declination:
  "sin (radians (declination jd)) = sin (radians (obliquity jd)) * sin (radians (ecliptic_longitude jd))"
  using sin_prod_bounds[of "radians (obliquity jd)" "radians (ecliptic_longitude jd)"]
  by (simp add: declination_def radians_degrees)

lemma obliquity_bounds:
  assumes "\<bar>jd - 2451545\<bar> \<le> 1 / 2"
  shows "23 < obliquity jd" and "obliquity jd < 24"
  unfolding obliquity_def using near_epoch[OF assms] by (simp_all add: field_simps)

lemma sin_declination_bound:
  assumes "\<bar>jd - 2451545\<bar> \<le> 1 / 2"
  shows "sin (radians (declination jd)) \<le> - (1 / 8)"
proof -
  have ob: "23 < obliquity jd" "obliquity jd < 24" using obliquity_bounds[OF assms] .
  have se: "1 / 4 \<le> sin (radians (obliquity jd))" using ob by (intro sin_ge_quarter) linarith+
  have sl: "sin (radians (ecliptic_longitude jd)) \<le> - (1 / 2)"
    using ecliptic_longitude_bounds[OF assms] by (intro sin_fourth_quadrant) linarith+
  have "sin (radians (obliquity jd)) * sin (radians (ecliptic_longitude jd))
          \<le> sin (radians (obliquity jd)) * (- (1 / 2))"
    using se sl by (intro mult_left_mono) linarith+
  then show ?thesis unfolding sin_declination using se by linarith
qed

lemma polar_night_arg:
  assumes "\<bar>jd - 2451545\<bar> \<le> 1 / 2"
  defines "d \<equiv> declination jd"
  shows "0 < cos (radians d) * cos (radians 89)"
    and "1 < (- sin (radians 0.833) - sin (radians d) * sin (radians 89))
               / (cos (radians d) * cos (radians 89))"
proof -
  have ob: "23 < obliquity jd" "obliquity jd < 24" using obliquity_bounds[OF assms(1)] .
  have cd: "0 < cos (radians d)" unfolding d_def using ob by (intro cos_declination_pos) linarith+
  have cd1: "cos (radians d) \<le> 1" by simp
  show den: "0 < cos (radians d) * cos (radians 89)" using cd lat_89(2) by simp
  have se: "1 / 4 \<le> sin (radians (obliquity jd))" using ob by (intro sin_ge_quarter) linarith+
  have sl: "sin (radians (ecliptic_longitude jd)) \<le> - (1 / 2)"
    using ecliptic_longitude_bounds[OF assms(1)] by (intro sin_fourth_quadrant) linarith+
  have "sin (radians (obliquity jd)) * sin (radians (ecliptic_longitude jd))
          \<le> sin (radians (obliquity jd)) * (- (1 / 2))"
    using se sl by (intro mult_left_mono) linarith+
  then have sd: "sin (radians d) \<le> - (1 / 8)"
    unfolding d_def sin_declination using se by linarith
  have "(1 / 8) * (1 / 2) \<le> (- sin (radians d)) * sin (radians 89)"
    using sd lat_89(1) by (intro mult_mono) linarith+
  then have num: "1 / 25 < - sin (radians 0.833) - sin (radians d) * sin (radians 89)"
    using sin_rise_set by simp
  have "cos (radians d) * cos (radians 89) \<le> 1 * cos (radians 89)"
    using cd1 lat_89(2) by (intro mult_right_mono) linarith+
  then have "cos (radians d) * cos (radians 89) < 1 / 25" using lat_89(3) by linarith
  then have "cos (radians d) * cos (radians 89)
             < - sin (radians 0.833) - sin (radians d) * sin (radians 89)"
    using num by linarith
  then show "1 < (- sin (radians 0.833) - sin (radians d) * sin (radians 89))
               / (cos (radians d) * cos (radians 89))"
    using den by (simp add: pos_less_divide_eq)
qed

lemma polar_night_89:
  assumes "\<bar>jd - 2451545\<bar> \<le> 1 / 2"
  shows "1 < (- sin (radians 0.833) - sin (radians (declination jd)) * sin (radians 89))
               / (cos_deg (declination jd) * cos_deg 89)"
proof -
  have "0 < cos (radians (declination jd)) * cos (radians 89)"
    using polar_night_arg(1)[OF assms] .
  then have "cos (radians (declination jd)) \<noteq> 0 \<and> cos (radians 89) \<noteq> 0" by auto
  then have "cos_deg (declination jd) = cos (radians (declination jd))"
    and "cos_deg 89 = cos (radians 89)"
    by (simp_all add: cos_deg_exact)
  then show ?thesis using polar_night_arg(2)[OF assms] by simp
qed

lemma polar_night_90:
  assumes "\<bar>jd - 2451545\<bar> \<le> 1 / 2"
  shows "1 < (- sin (radians 0.833) - sin (radians (declination jd)) * sin (radians 90))
               / (cos_deg (declination jd) * cos_deg 90)"
proof -
  let ?d = "declination jd"
  have ob: "23 < obliquity jd" "obliquity jd < 24" using obliquity_bounds[OF assms] .
  have cd: "0 < cos (radians ?d)" using ob by (intro cos_declination_pos) linarith+
  then have c: "cos_deg ?d = cos (radians ?d)" by (simp add: cos_deg_exact)
  have cd1: "cos (radians ?d) \<le> 1" by simp
  have sd: "sin (radians ?d) \<le> - (1 / 8)" using sin_declination_bound[OF assms] .
  have s90: "sin (radians 90) = 1" by (simp add: radians_def)
  have num: "1 / 10 < - sin (radians 0.833) - sin (radians ?d) * sin (radians 90)"
    unfolding s90 using sd sin_rise_set by simp
  have e: "0 < cos_deg 90" "cos_deg 90 < 1 / 10" by (simp_all add: cos_deg_90)
  have "cos (radians ?d) * cos_deg 90 \<le> 1 * cos_deg 90"
    using cd1 e by (intro mult_right_mono) linarith+
  then have den1: "cos (radians ?d) * cos_deg 90 < 1 / 10" using e by linarith
  have den: "0 < cos (radians ?d) * cos_deg 90" using cd e(1) by (rule mult_pos_pos)
  have "cos (radians ?d) * cos_deg 90
          < - sin (radians 0.833) - sin (radians ?d) * sin (radians 90)"
    using den1 num by linarith
  then show ?thesis unfolding c using den by (simp add: pos_less_divide_eq)
qed

lemma sun_angle_time_value:
  assumes sp: "sun_position (jDate self + time) = Inr (decl, eqt)"
    and md: "mid_day self time = Inr noon"
  shows "sun_angle_time self angle time direction =
       (case (angle, decl, lat self) of
          (Fin a, Fin d, Fin \<phi>) \<Rightarrow>
            (let x = (- sin (radians a) - sin (radians d) * sin (radians \<phi>))
                       / (cos_deg d * cos_deg \<phi>);
                 H = degrees (arccos x)
             in if x < - 1 \<or> 1 < x then Inr NaN
                else if direction = Some ''ccw'' then Inr (noon - Fin (H / 15))
                else Inr (noon + Fin (H / 15)))
        | _ \<Rightarrow> Inr NaN)"
proof (cases "angle = NaN \<or> decl = NaN \<or> lat self = NaN")
  case True
  then have "sun_angle_time self angle time direction = Inr NaN"
    by (rule sun_angle_time_NaN[OF sp])
  then show ?thesis using True
    by (cases angle; cases decl; cases "lat self") simp_all
next
  case False
  then obtain a d \<phi> where v: "angle = Fin a" "decl = Fin d" "lat self = Fin \<phi>"
    by (cases angle; cases decl; cases "lat self") simp_all
  show ?thesis
    unfolding v(1) sun_angle_time_arg[OF sp[unfolded v(2)] md hour_angle_arg_Fin[OF v(3)]]
    by (simp add: v Let_def)
qed

lemma sun_angle_time_total: "\<exists>r. sun_angle_time self angle time direction = Inr r"
proof -
  obtain decl eqt where sp: "sun_position (jDate self + time) = Inr (decl, eqt)"
    using sun_position_total by blast
  obtain noon where md: "mid_day self time = Inr noon"
    using mid_day_total by blast
  show ?thesis
    unfolding sun_angle_time_value[OF sp md]
    by (cases angle; cases decl; cases "lat self") (simp_all add: Let_def)
qed

lemma sun_angle_time_polar:
  assumes "lat self = Fin 89" and "jDate self + time = Fin jd" and "\<bar>jd - 2451545\<bar> \<le> 1 / 2"
  shows "sun_angle_time self (Fin 0.833) time direction = Inr NaN"
proof -
  have sp: "sun_position (jDate self + time) = Inr (Fin (declination jd), Fin (equation_of_time jd))"
    by (simp add: assms(2) sun_position_Fin)
  obtain noon where md: "mid_day self time = Inr noon" using mid_day_total by blast
  show ?thesis
    unfolding sun_angle_time_value[OF sp md] assms(1)
    using polar_night_89[OF assms(3)] by (simp add: Let_def)
qed

text \<open>
  Claim C7. \<open>sun_position\<close> and \<open>mid_day\<close> return for every argument; with \<open>decl\<close> the
  declination \<open>sun_position\<close> returns and \<open>noon\<close> the time \<open>mid_day\<close> returns,
  \<open>sun_angle_time\<close> returns, for every angle, time and direction and every latitude of
  the engine: NaN when the quotient \<open>x\<close> of the hour-angle equation is outside
  \<open>[-1, 1]\<close>, and otherwise \<open>noon\<close> minus \<open>H / 15\<close> in the direction \<open>'ccw'\<close> and
  \<open>noon\<close> plus \<open>H / 15\<close> in any other, with \<open>H\<close> the arccosine of \<open>x\<close> in degrees. It
  returns NaN as well when the angle, the latitude or the date is NaN. It raises in no
  case: the divisor of the quotient is a product of two cosines, which are not zero.
\<close>

theorem sun_angle_time_cases:
  "\<exists>decl eqt noon.
     sun_position (jDate self + time) = Inr (decl, eqt) \<and> mid_day self time = Inr noon \<and>
     sun_angle_time self angle time direction =
       (case (angle, decl, lat self) of
          (Fin a, Fin d, Fin \<phi>) \<Rightarrow>
            (let x = (- sin (radians a) - sin (radians d) * sin (radians \<phi>))
                       / (cos_deg d * cos_deg \<phi>);
                 H = degrees (arccos x)
             in if x < - 1 \<or> 1 < x then Inr NaN
                else if direction = Some ''ccw'' then Inr (noon - Fin (H / 15))
                else Inr (noon + Fin (H / 15)))
        | _ \<Rightarrow> Inr NaN)"
proof -
  obtain decl eqt where sp: "sun_position (jDate self + time) = Inr (decl, eqt)"
    using sun_position_total by blast
  obtain noon where md: "mid_day self time = Inr noon"
    using mid_day_total by blast
  show ?thesis
    using sp md sun_angle_time_value[OF sp md] by blast
qed

theorem sun_angle_time_cases_witness:
  "sun_angle_time (class_state\<lparr>lat := Fin 89, jDate := Fin 2451544.5\<rparr>)
     (Fin 0.833) (Fin (6 / 24)) (Some ''ccw'') = Inr NaN \<and>
   sun_angle_time (class_state\<lparr>lat := Fin 90, jDate := Fin 2451544.5\<rparr>)
     (Fin 0.833) (Fin (18 / 24)) None = Inr NaN \<and>
   (\<exists>noon. mid_day (class_state\<lparr>jDate := Fin 2451545\<rparr>) (Fin 0) = Inr noon \<and>
      sun_angle_time (class_state\<lparr>jDate := Fin 2451545\<rparr>) (Fin 0) (Fin 0) (Some ''ccw'')
        = Inr (noon - Fin 6) \<and>
      sun_angle_time (class_state\<lparr>jDate := Fin 2451545\<rparr>) (Fin 0) (Fin 0) None
        = Inr (noon + Fin 6))"
proof (intro conjI)
  let ?s = "class_state\<lparr>lat := Fin 89, jDate := Fin 2451544.5\<rparr>"
  have sp: "sun_position (jDate ?s + Fin (6 / 24)) = Inr (Fin (declination 2451544.75),
      Fin (equation_of_time 2451544.75))"
    by (simp add: sun_position_Fin[symmetric])
  have x: "1 < (- sin (radians 0.833) - sin (radians (declination 2451544.75)) * sin (radians 89))
               / (cos_deg (declination 2451544.75) * cos_deg 89)"
    by (rule polar_night_89) simp
  show "sun_angle_time ?s (Fin 0.833) (Fin (6 / 24)) (Some ''ccw'') = Inr NaN"
    using sun_angle_time_cases[of ?s "Fin (6 / 24)" "Fin 0.833" "Some ''ccw''"] x
    unfolding sp by (auto simp: Let_def)
next
  let ?s = "class_state\<lparr>lat := Fin 90, jDate := Fin 2451544.5\<rparr>"
  have sp: "sun_position (jDate ?s + Fin (18 / 24)) = Inr (Fin (declination 2451545.25),
      Fin (equation_of_time 2451545.25))"
    by (simp add: sun_position_Fin[symmetric])
  have x: "1 < (- sin (radians 0.833) - sin (radians (declination 2451545.25)) * sin (radians 90))
               / (cos_deg (declination 2451545.25) * cos_deg 90)"
    by (rule polar_night_90) simp
  show "sun_angle_time ?s (Fin 0.833) (Fin (18 / 24)) None = Inr NaN"
    using sun_angle_time_cases[of ?s "Fin (18 / 24)" "Fin 0.833" None] x
    unfolding sp by (auto simp: Let_def)
next
  let ?s = "class_state\<lparr>jDate := Fin 2451545\<rparr>"
  have sp: "sun_position (jDate ?s + Fin 0) = Inr (Fin (declination 2451545),
      Fin (equation_of_time 2451545))"
    by (simp add: sun_position_Fin[symmetric])
  have la: "lat ?s = Fin 0" by (simp add: class_state_def)
  have x: "(- sin (radians 0) - sin (radians (declination 2451545)) * sin (radians 0))
             / (cos_deg (declination 2451545) * cos_deg 0) = 0"
    by (simp add: radians_def)
  from sun_angle_time_cases[of ?s "Fin 0" "Fin 0" "Some ''ccw''"]
  obtain noon where md: "mid_day ?s (Fin 0) = Inr noon"
    and ccw: "sun_angle_time ?s (Fin 0) (Fin 0) (Some ''ccw'') = Inr (noon - Fin 6)"
    unfolding sp la by (auto simp: Let_def x degrees_def)
  from sun_angle_time_cases[of ?s "Fin 0" "Fin 0" None]
  have "sun_angle_time ?s (Fin 0) (Fin 0) None = Inr (noon + Fin 6)"
    unfolding sp la md by (auto simp: Let_def x degrees_def)
  then show "\<exists>noon. mid_day ?s (Fin 0) = Inr noon \<and>
      sun_angle_time ?s (Fin 0) (Fin 0) (Some ''ccw'') = Inr (noon - Fin 6) \<and>
      sun_angle_time ?s (Fin 0) (Fin 0) None = Inr (noon + Fin 6)"
    using md ccw by blast
qed

section \<open>Properties of the engine\<close>

lemma ebind_Inr: "ebind m f = Inr y \<longleftrightarrow> (\<exists>x. m = Inr x \<and> f x = Inr y)"
  by (cases m) simp_all

lemma dict_get_Some: "map_of d k = Some v \<Longrightarrow> dict_get d k = Inr v"
  by (simp add: dict_get_def)

lemma PrayTimes_ISNA:
  "PrayTimes ''ISNA'' = class_state
     \<lparr> methods := map (\<lambda>(method_name, config). (method_name, config\<lparr>params := merge_defaults (params config)\<rparr>))
                     (methods class_state),
       calc_method := ''ISNA'',
       settings := [(''imsak'', PStr ''10 min''), (''dhuhr'', PStr ''0 min''), (''asr'', PStr ''Standard''),
          (''highLats'', PStr ''NightMiddle''), (''fajr'', PInt 15), (''isha'', PInt 15),
          (''maghrib'', PStr ''0 min''), (''midnight'', PStr ''Standard'')],
       offset := [(''imsak'', PInt 0), (''fajr'', PInt 0), (''sunrise'', PInt 0),
          (''dhuhr'', PInt 0), (''asr'', PInt 0), (''sunset'', PInt 0),
          (''maghrib'', PInt 0), (''isha'', PInt 0), (''midnight'', PInt 0)] \<rparr>"
  unfolding PrayTimes_def init_def Let_def merged_catalog
  by (simp add: class_state_def dict_update_def time_names_def)

lemma PrayTimes_Makkah_settings:
  "settings (PrayTimes ''Makkah'') =
     [(''imsak'', PStr ''10 min''), (''dhuhr'', PStr ''0 min''), (''asr'', PStr ''Standard''),
      (''highLats'', PStr ''NightMiddle''), (''fajr'', PFloat (Fin 18.5)), (''isha'', PStr ''90 min''),
      (''maghrib'', PStr ''0 min''), (''midnight'', PStr ''Standard'')]"
  unfolding PrayTimes_def init_def Let_def merged_catalog
  by (simp add: class_state_def dict_update_def)

lemma eval_examples:
  "eval float_str (PStr ''10 min'') = Inr 10"
  "eval float_str (PStr ''0 min'') = Inr 0"
  "eval float_str (PStr ''90 min'') = Inr 90"
  "eval float_str (PInt 15) = Inr 15"
  by (simp_all add: eval_def eval_str_def leading_token_def numeric_char_def float_of_str_def
      sign_split_def point_split_def is_digit_def digits_val_def digit_val_def show_int_def
      show_nat.simps)

text \<open>
  Claim C8. The minute-offset stage of \<open>adjust_times\<close>: when the four settings are
  there and those it parses are numbers, \<open>imsak\<close> becomes \<open>fajr\<close> minus its minutes over
  60 if its setting is a minute offset, \<open>maghrib\<close> becomes \<open>sunset\<close> minus its minutes
  over 60 if its setting is one, \<open>isha\<close> becomes the \<open>maghrib\<close> just adjusted minus its
  minutes over 60 if its setting is one, \<open>dhuhr\<close> is always incremented by its
  setting's minutes over 60, and no other time changes.
\<close>

theorem minute_offsets_result:
  assumes "map_of (settings self) ''imsak'' = Some p1"
    and "map_of (settings self) ''maghrib'' = Some p2"
    and "map_of (settings self) ''isha'' = Some p3"
    and "map_of (settings self) ''dhuhr'' = Some p4"
    and "is_min p1 \<longrightarrow> eval float_str p1 = Inr m1"
    and "is_min p2 \<longrightarrow> eval float_str p2 = Inr m2"
    and "is_min p3 \<longrightarrow> eval float_str p3 = Inr m3"
    and "eval float_str p4 = Inr m4"
  shows "minute_offsets float_str self t = Inr
     (t\<lparr> imsak := if is_min p1 then fajr t - Fin (m1 / 60) else imsak t,
         maghrib := if is_min p2 then sunset t - Fin (m2 / 60) else maghrib t,
         isha := if is_min p3
                 then (if is_min p2 then sunset t - Fin (m2 / 60) else maghrib t) - Fin (m3 / 60)
                 else isha t,
         dhuhr := dhuhr t + Fin (m4 / 60) \<rparr>)"
  using assms
  by (simp add: minute_offsets_def Let_def dict_get_Some eval_param_def)

theorem minute_offsets_result_witness:
  "\<forall>float_str.
     map_of (settings (PrayTimes ''Makkah'')) ''isha'' = Some (PStr ''90 min'') \<and>
     is_min (PStr ''90 min'') \<and> eval float_str (PStr ''90 min'') = Inr 90 \<and>
     minute_offsets float_str (PrayTimes ''Makkah'')
       \<lparr> imsak = Fin 4, fajr = Fin 5, sunrise = Fin 6, dhuhr = Fin 12, asr = Fin 15,
         sunset = Fin 18, maghrib = Fin 18.1, isha = Fin 19 \<rparr>
     = Inr \<lparr> imsak = Fin (29 / 6), fajr = Fin 5, sunrise = Fin 6, dhuhr = Fin 12, asr = Fin 15,
             sunset = Fin 18, maghrib = Fin 18, isha = Fin 16.5 \<rparr>"
proof
  fix float_str
  show "map_of (settings (PrayTimes ''Makkah'')) ''isha'' = Some (PStr ''90 min'') \<and>
     is_min (PStr ''90 min'') \<and> eval float_str (PStr ''90 min'') = Inr 90 \<and>
     minute_offsets float_str (PrayTimes ''Makkah'')
       \<lparr> imsak = Fin 4, fajr = Fin 5, sunrise = Fin 6, dhuhr = Fin 12, asr = Fin 15,
         sunset = Fin 18, maghrib = Fin 18.1, isha = Fin 19 \<rparr>
     = Inr \<lparr> imsak = Fin (29 / 6), fajr = Fin 5, sunrise = Fin 6, dhuhr = Fin 12, asr = Fin 15,
             sunset = Fin 18, maghrib = Fin 18, isha = Fin 16.5 \<rparr>"
    using minute_offsets_result[of "PrayTimes ''Makkah''" "PStr ''10 min''" "PStr ''0 min''"
        "PStr ''90 min''" "PStr ''0 min''" float_str 10 0 90 0]
    by (simp add: PrayTimes_Makkah_settings eval_examples)
qed

section \<open>Sunrise and sunset when the equation has no solution\<close>

lemma adjust_high_lats_sun:
  assumes "adjust_high_lats float_str self t = Inr t'"
  shows "sunrise t' = sunrise t \<and> sunset t' = sunset t"
  using assms by (auto simp: adjust_high_lats_def ebind_Inr Let_def)

lemma cond_update:
  assumes "(if c then ebind e (\<lambda>m. Inr (g m)) else Inr t) = Inr t'"
  shows "t' = t \<or> (\<exists>m. t' = g m)"
  using assms by (cases c; cases e) auto

lemma minute_offsets_sun:
  assumes "minute_offsets float_str self t = Inr t'"
  shows "sunrise t' = sunrise t \<and> sunset t' = sunset t"
proof -
  from assms obtain p1 ta p2 tb p3 tc m where
    a: "(if is_min p1
         then ebind (eval float_str p1) (\<lambda>m. Inr (t\<lparr>imsak := fajr t - Fin (m / 60.0)\<rparr>))
         else Inr t) = Inr ta"
    and b: "(if is_min p2
         then ebind (eval float_str p2) (\<lambda>m. Inr (ta\<lparr>maghrib := sunset ta - Fin (m / 60.0)\<rparr>))
         else Inr ta) = Inr tb"
    and c: "(if is_min p3
         then ebind (eval float_str p3) (\<lambda>m. Inr (tb\<lparr>isha := maghrib tb - Fin (m / 60.0)\<rparr>))
         else Inr tb) = Inr tc"
    and d: "t' = tc\<lparr>dhuhr := dhuhr tc + Fin (m / 60.0)\<rparr>"
    unfolding minute_offsets_def Let_def ebind_Inr by blast
  have "sunrise ta = sunrise t \<and> sunset ta = sunset t"
    using cond_update[OF a] by auto
  moreover have "sunrise tb = sunrise ta \<and> sunset tb = sunset ta"
    using cond_update[OF b] by auto
  moreover have "sunrise tc = sunrise tb \<and> sunset tc = sunset tb"
    using cond_update[OF c] by auto
  ultimately show ?thesis using d by simp
qed

lemma adjust_times_sun:
  assumes "adjust_times float_str self t = Inr t'" and "sunrise t = NaN" and "sunset t = NaN"
  shows "sunrise t' = NaN \<and> sunset t' = NaN"
proof -
  let ?t1 = "map_times (\<lambda>v. v + (timeZone self - fdivl (lng self) 15.0)) t"
  have 1: "sunrise ?t1 = NaN \<and> sunset ?t1 = NaN"
    using assms(2,3) by (simp add: map_times_def)
  from assms(1) obtain hl t2 where
    t2: "(if hl \<noteq> PStr ''None'' then adjust_high_lats float_str self ?t1 else Inr ?t1) = Inr t2"
    and m: "minute_offsets float_str self t2 = Inr t'"
    unfolding adjust_times_def Let_def ebind_Inr by blast
  have "sunrise t2 = NaN \<and> sunset t2 = NaN"
    using t2 1 adjust_high_lats_sun[of float_str self ?t1 t2] by (auto split: if_splits)
  then show ?thesis using minute_offsets_sun[OF m] by simp
qed

lemma for_times_sun:
  assumes "for_times f t = Inr t'"
  shows "f ''sunrise'' (sunrise t) = Inr (sunrise t') \<and> f ''sunset'' (sunset t) = Inr (sunset t')"
  using assms by (auto simp: for_times_def ebind_Inr)

lemma get_formatted_time_NaN: "get_formatted_time NaN f = Inr (Text ''-----'')"
  by (simp add: get_formatted_time_def invalid_time_def)

lemma get_formatted_time_dhuhr: "get_formatted_time (Fin (61 / 5)) ''24h'' = Inr (Text ''12:12'')"
  by (simp add: get_formatted_time_def fixhour_Fin fmt_02d_def show_int_def show_nat.simps)

lemma finish_times_polar_night:
  "finish_times float_str (PrayTimes ''ISNA'')
     \<lparr> imsak = NaN, fajr = NaN, sunrise = NaN, dhuhr = Fin 12.2, asr = NaN,
       sunset = NaN, maghrib = NaN, isha = NaN \<rparr>
   = Inr \<lparr> imsak = Text ''-----'', fajr = Text ''-----'', sunrise = Text ''-----'',
           dhuhr = Text ''12:12'', asr = Text ''-----'', sunset = Text ''-----'',
           maghrib = Text ''-----'', isha = Text ''-----'', midnight = Text ''-----'' \<rparr>"
  unfolding PrayTimes_ISNA
  by (simp add: finish_times_def adjust_times_def adjust_high_lats_def adjust_HL_time_def
        night_portion_def minute_offsets_def tune_times_def modify_formats_def for_times_def
        add_midnight_def map_times_def time_diff_def fixhour_NaN dict_get_def eval_param_def
        eval_examples class_state_def Let_def get_formatted_time_dhuhr get_formatted_time_NaN)

text \<open>
  Claim C3. In a near-pole scenario where the equation of sunrise and sunset has no
  solution, the times \<open>compute_prayer_times\<close> returns have NaN for \<open>sunrise\<close> and
  \<open>sunset\<close>. The claim was that their formatted entries are the invalid-time sentinel
  under the rule \<open>'None'\<close> and clamped times under any other high-latitude rule.
  \<open>adjust_high_lats\<close> clamps \<open>imsak\<close>, \<open>fajr\<close>, \<open>isha\<close> and \<open>maghrib\<close> only: whatever
  the rule, \<open>sunrise\<close> and \<open>sunset\<close> stay NaN through the rest of \<open>compute_times\<close> and
  are formatted as the sentinel.
\<close>

theorem finish_times_sun_sentinel:
  assumes "sunrise t = NaN" and "sunset t = NaN" and "finish_times float_str self t = Inr out"
  shows "sunrise out = Text invalid_time \<and> sunset out = Text invalid_time"
proof -
  from assms(3) obtain t1 night t2 where
    a: "adjust_times float_str self t = Inr t1"
    and tt: "tune_times self (add_midnight t1 (sunset t1 + fdivl night 2)) = Inr t2"
    and mf: "modify_formats self t2 = Inr out"
    unfolding finish_times_def ebind_Inr by blast
  have 1: "sunrise t1 = NaN \<and> sunset t1 = NaN"
    using adjust_times_sun[OF a assms(1,2)] .
  have 2: "sunrise t2 = NaN \<and> sunset t2 = NaN"
    using for_times_sun[OF tt[unfolded tune_times_def]] 1
    by (auto simp: add_midnight_def ebind_Inr)
  show ?thesis
    using for_times_sun[OF mf[unfolded modify_formats_def]] 2
    by (auto simp: get_formatted_time_def)
qed

theorem finish_times_sun_sentinel_witness:
  "\<forall>float_str. \<exists>out.
     finish_times float_str (PrayTimes ''ISNA'')
       \<lparr> imsak = NaN, fajr = NaN, sunrise = NaN, dhuhr = Fin 12.2, asr = NaN,
         sunset = NaN, maghrib = NaN, isha = NaN \<rparr> = Inr out \<and>
     sunrise out = Text invalid_time \<and> sunset out = Text invalid_time"
proof
  fix float_str
  let ?t = "\<lparr> imsak = NaN, fajr = NaN, sunrise = NaN, dhuhr = Fin 12.2, asr = NaN,
         sunset = NaN, maghrib = NaN, isha = NaN \<rparr>"
  obtain out where out: "finish_times float_str (PrayTimes ''ISNA'') ?t = Inr out"
    using finish_times_polar_night[of float_str] by blast
  have "sunrise out = Text invalid_time \<and> sunset out = Text invalid_time"
    by (rule finish_times_sun_sentinel[OF _ _ out]) simp_all
  then show "\<exists>out. finish_times float_str (PrayTimes ''ISNA'') ?t = Inr out \<and>
     sunrise out = Text invalid_time \<and> sunset out = Text invalid_time"
    using out by blast
qed

theorem high_lats_sun_counterexample:
  "\<forall>float_str.
     dict_get (settings (PrayTimes ''ISNA'')) ''highLats'' = Inr (PStr ''NightMiddle'') \<and>
     finish_times float_str (PrayTimes ''ISNA'')
       \<lparr> imsak = NaN, fajr = NaN, sunrise = NaN, dhuhr = Fin 12.2, asr = NaN,
         sunset = NaN, maghrib = NaN, isha = NaN \<rparr>
     = Inr \<lparr> imsak = Text ''-----'', fajr = Text ''-----'', sunrise = Text ''-----'',
             dhuhr = Text ''12:12'', asr = Text ''-----'', sunset = Text ''-----'',
             maghrib = Text ''-----'', isha = Text ''-----'', midnight = Text ''-----'' \<rparr>"
  using finish_times_polar_night by (simp add: PrayTimes_ISNA dict_get_def)

section \<open>The format of the times\<close>

subsection \<open>When the stages of compute\_times return\<close>

text \<open>
  With settings and offsets that are \<open>settings_ok\<close> and \<open>offsets_ok\<close>, every stage after
  the iterations returns: \<open>adjust_times\<close>, the midnight entry and \<open>tune_times\<close>; and
  \<open>modify_formats\<close> always does.
\<close>

lemma ebind_total: "m = Inr x \<Longrightarrow> (\<And>x. \<exists>y. f x = Inr y) \<Longrightarrow> \<exists>y. ebind m f = Inr y"
  by simp

lemma parsesD: "parses float_str self name \<Longrightarrow> \<exists>v. eval_param float_str self name = Inr v"
  by (cases "eval_param float_str self name") (simp_all add: parses_def)

lemma parses_getD:
  "parses float_str self name \<Longrightarrow>
     \<exists>p v. dict_get (settings self) name = Inr p \<and> eval float_str p = Inr v"
  by (cases "dict_get (settings self) name") (auto simp: parses_def eval_param_def split: sum.splits)

lemma dict_get_total: "map_of d k \<noteq> None \<Longrightarrow> \<exists>v. dict_get d k = Inr v"
  by (auto simp: dict_get_def)

lemma time_diff_total: "\<exists>d. time_diff a b = Inr d"
  by (simp add: time_diff_def fixhour_total)

lemma adjust_HL_time_total:
  assumes "map_of (settings self) ''highLats'' \<noteq> None"
  shows "\<exists>v. adjust_HL_time self time base angle night direction = Inr v"
proof -
  obtain m where m: "dict_get (settings self) ''highLats'' = Inr m"
    using dict_get_total[OF assms] by blast
  obtain d1 where d1: "time_diff time base = Inr d1" using time_diff_total by blast
  obtain d2 where d2: "time_diff base time = Inr d2" using time_diff_total by blast
  show ?thesis
    by (simp add: adjust_HL_time_def night_portion_def m d1 d2 Let_def)
qed

lemma adjust_high_lats_total:
  assumes "settings_ok float_str self"
  shows "\<exists>t'. adjust_high_lats float_str self t = Inr t'"
proof -
  have hl: "map_of (settings self) ''highLats'' \<noteq> None"
    using assms by (simp add: settings_ok_def)
  obtain n where n: "time_diff (sunset t) (sunrise t) = Inr n" using time_diff_total by blast
  obtain a1 where a1: "eval_param float_str self ''imsak'' = Inr a1"
    using assms parsesD by (fastforce simp: settings_ok_def)
  obtain a2 where a2: "eval_param float_str self ''fajr'' = Inr a2"
    using assms parsesD by (fastforce simp: settings_ok_def)
  obtain a3 where a3: "eval_param float_str self ''isha'' = Inr a3"
    using assms parsesD by (fastforce simp: settings_ok_def)
  obtain a4 where a4: "eval_param float_str self ''maghrib'' = Inr a4"
    using assms parsesD by (fastforce simp: settings_ok_def)
  obtain v1 where v1: "adjust_HL_time self (imsak t) (sunrise t) a1 n (Some ''ccw'') = Inr v1"
    using adjust_HL_time_total[OF hl] by blast
  obtain v2 where v2: "adjust_HL_time self (fajr t) (sunrise t) a2 n (Some ''ccw'') = Inr v2"
    using adjust_HL_time_total[OF hl] by blast
  obtain v3 where v3: "adjust_HL_time self (isha t) (sunset t) a3 n None = Inr v3"
    using adjust_HL_time_total[OF hl] by blast
  obtain v4 where v4: "adjust_HL_time self (maghrib t) (sunset t) a4 n None = Inr v4"
    using adjust_HL_time_total[OF hl] by blast
  show ?thesis
    by (simp add: adjust_high_lats_def n a1 a2 a3 a4 v1 v2 v3 v4 Let_def)
qed

lemma minute_offsets_total:
  assumes "settings_ok float_str self"
  shows "\<exists>t'. minute_offsets float_str self t = Inr t'"
proof -
  obtain p1 m1 where p1: "dict_get (settings self) ''imsak'' = Inr p1" "eval float_str p1 = Inr m1"
    using assms parses_getD[of float_str self "''imsak''"] by (auto simp: settings_ok_def)
  obtain p2 m2 where p2: "dict_get (settings self) ''maghrib'' = Inr p2" "eval float_str p2 = Inr m2"
    using assms parses_getD[of float_str self "''maghrib''"] by (auto simp: settings_ok_def)
  obtain p3 m3 where p3: "dict_get (settings self) ''isha'' = Inr p3" "eval float_str p3 = Inr m3"
    using assms parses_getD[of float_str self "''isha''"] by (auto simp: settings_ok_def)
  obtain m4 where m4: "eval_param float_str self ''dhuhr'' = Inr m4"
    using assms parsesD by (fastforce simp: settings_ok_def)
  show ?thesis
    by (simp add: minute_offsets_def Let_def p1 p2 p3 m4)
qed

lemma adjust_times_total:
  assumes "settings_ok float_str self"
  shows "\<exists>t'. adjust_times float_str self t = Inr t'"
proof -
  obtain hl where hl: "dict_get (settings self) ''highLats'' = Inr hl"
    using assms dict_get_total by (fastforce simp: settings_ok_def)
  let ?t1 = "map_times (\<lambda>v. v + (timeZone self - fdivl (lng self) 15.0)) t"
  obtain t2 where t2:
    "(if hl \<noteq> PStr ''None'' then adjust_high_lats float_str self ?t1 else Inr ?t1) = Inr t2"
    using adjust_high_lats_total[OF assms, of ?t1] by (cases "hl \<noteq> PStr ''None''") auto
  obtain t3 where t3: "minute_offsets float_str self t2 = Inr t3"
    using minute_offsets_total[OF assms] by blast
  show ?thesis
    unfolding adjust_times_def Let_def hl ebind.simps using t2 t3 by simp
qed

lemma get_formatted_time_total: "\<exists>r. get_formatted_time v f = Inr r"
  by (cases v) (simp_all add: get_formatted_time_def fixhour_Fin Let_def)

lemma for_times_total:
  assumes "\<exists>r. f ''imsak'' (imsak t) = Inr r" and "\<exists>r. f ''fajr'' (fajr t) = Inr r"
    and "\<exists>r. f ''sunrise'' (sunrise t) = Inr r" and "\<exists>r. f ''dhuhr'' (dhuhr t) = Inr r"
    and "\<exists>r. f ''asr'' (asr t) = Inr r" and "\<exists>r. f ''sunset'' (sunset t) = Inr r"
    and "\<exists>r. f ''maghrib'' (maghrib t) = Inr r" and "\<exists>r. f ''isha'' (isha t) = Inr r"
    and "\<exists>r. f ''midnight'' (midnight t) = Inr r"
  shows "\<exists>t'. for_times f t = Inr t'"
  using assms unfolding for_times_def by (elim exE) simp

lemma modify_formats_total: "\<exists>out. modify_formats self t = Inr out"
  unfolding modify_formats_def
  by (rule for_times_total) (rule get_formatted_time_total)+

lemma tune_one:
  assumes "offsets_ok self" and "name \<in> set time_names"
  shows "\<exists>r. ebind (dict_get (offset self) name) (\<lambda>x. ebind (div60 x) (\<lambda>d. Inr (v + d))) = Inr r"
proof -
  have "case ebind (dict_get (offset self) name) div60 of Inr d \<Rightarrow> True | Inl e \<Rightarrow> False"
    using assms by (simp add: offsets_ok_def list_all_iff)
  then obtain d where "ebind (dict_get (offset self) name) div60 = Inr d"
    by (cases "ebind (dict_get (offset self) name) div60") simp_all
  then obtain x where "dict_get (offset self) name = Inr x" "div60 x = Inr d"
    by (auto simp: ebind_Inr)
  then show ?thesis by simp
qed

lemma tune_times_total:
  assumes "offsets_ok self"
  shows "\<exists>t'. tune_times self t = Inr t'"
  unfolding tune_times_def
  by (rule for_times_total) (rule tune_one[OF assms], simp add: time_names_def)+

lemma unformatted_times_total:
  assumes "iterate (num_iterations self) (compute_prayer_times float_str self) seed_times = Inr t0"
    and "settings_ok float_str self" and "offsets_ok self"
  shows "\<exists>t. unformatted_times float_str self = Inr t"
proof -
  obtain t1 where t1: "adjust_times float_str self t0 = Inr t1"
    using adjust_times_total[OF assms(2)] by blast
  obtain rule where rule: "dict_get (settings self) ''midnight'' = Inr rule"
    using assms(2) dict_get_total by (fastforce simp: settings_ok_def)
  obtain night where night:
    "(if rule = PStr ''Jafari'' then time_diff (sunset t1) (fajr t1)
      else time_diff (sunset t1) (sunrise t1)) = Inr night"
    using time_diff_total by (cases "rule = PStr ''Jafari''") auto
  obtain t2 where "tune_times self (add_midnight t1 (sunset t1 + fdivl night 2)) = Inr t2"
    using tune_times_total[OF assms(3)] by blast
  then show ?thesis
    unfolding unformatted_times_def assms(1) t1 rule ebind.simps night by simp
qed

subsection \<open>The engine at latitude 89 on 1 January 2000\<close>

text \<open>
  \<open>compute_prayer_times\<close> returns for this engine: no divisor is zero, sunrise and
  sunset are NaN and the time of \<open>dhuhr\<close> is a number.
\<close>

lemma declination_bounds:
  assumes "\<bar>jd - 2451545\<bar> \<le> 1 / 2"
  shows "- 24 < declination jd" and "declination jd < 0"
proof -
  let ?e = "radians (obliquity jd)"
  let ?y = "sin ?e * sin (radians (ecliptic_longitude jd))"
  have ob: "23 < obliquity jd" "obliquity jd < 24" using obliquity_bounds[OF assms] .
  have e: "0 < ?e" "?e < pi / 2" using ob pi_gt_zero by (simp_all add: radians_def)
  have se: "1 / 4 \<le> sin ?e" using ob by (intro sin_ge_quarter) linarith+
  have sl: "sin (radians (ecliptic_longitude jd)) \<le> - (1 / 2)"
    using ecliptic_longitude_bounds[OF assms] by (intro sin_fourth_quadrant) linarith+
  have "sin ?e * sin (radians (ecliptic_longitude jd)) \<le> sin ?e * (- (1 / 2))"
    using se sl by (intro mult_left_mono) linarith+
  then have y0: "?y < 0" using se by linarith
  have "sin ?e * (- 1) \<le> sin ?e * sin (radians (ecliptic_longitude jd))"
    using se by (intro mult_left_mono) simp_all
  then have y1: "- sin ?e \<le> ?y" by simp
  have yb: "- 1 \<le> ?y" "?y \<le> 1" using sin_prod_bounds by blast+
  have "arcsin ?y < arcsin 0" using yb y0 by (intro arcsin_less_arcsin) simp_all
  then have a0: "arcsin ?y < 0" by simp
  have "arcsin (- sin ?e) \<le> arcsin ?y" using y1 yb by (intro arcsin_le_arcsin) simp_all
  moreover have "arcsin (- sin ?e) = - ?e"
    using e by (simp add: arcsin_minus arcsin_sin)
  ultimately have a1: "- ?e \<le> arcsin ?y" by simp
  show "declination jd < 0"
    using a0 pi_gt_zero by (simp add: declination_def degrees_def field_simps)
  have "- degrees ?e \<le> degrees (arcsin ?y)"
    using a1 pi_gt_zero by (simp add: degrees_def field_simps)
  moreover have "degrees ?e = obliquity jd" by (simp add: degrees_def radians_def)
  ultimately show "- 24 < declination jd" using ob by (simp add: declination_def)
qed

lemma radians_mono: "a < b \<Longrightarrow> radians a < radians b"
  using pi_gt_zero by (simp add: radians_def divide_strict_right_mono)

lemma one_plus_tan:
  assumes "- 45 < \<theta>" and "\<theta> < 135"
  shows "1 + tan (radians \<theta>) \<noteq> 0"
proof -
  let ?x = "radians \<theta>"
  have "radians (- 45) = - (pi / 4)" and "radians 135 = 3 * pi / 4"
    by (simp_all add: radians_def)
  then have x: "0 < ?x + pi / 4" "?x + pi / 4 < pi"
    using radians_mono[OF assms(1)] radians_mono[OF assms(2)] by linarith+
  have "0 < sin (?x + pi / 4)" using x by (rule sin_gt_zero)
  then have "0 < (sin ?x + cos ?x) * (sqrt 2 / 2)"
    by (simp add: sin_add sin_45 cos_45 algebra_simps)
  then have s: "0 < sin ?x + cos ?x" by (simp add: zero_less_mult_iff)
  show ?thesis
  proof (cases "cos ?x = 0")
    case True
    then show ?thesis by (simp add: tan_def)
  next
    case False
    then have "1 + tan ?x = (cos ?x + sin ?x) / cos ?x"
      by (simp add: tan_def field_simps)
    then show ?thesis using s False by simp
  qed
qed

lemma one_plus_tan_deg:
  assumes "- 45 < \<theta>" and "\<theta> < 135"
  shows "1 + sin (radians \<theta>) / cos_deg \<theta> \<noteq> 0"
proof (cases "cos (radians \<theta>) = 0")
  case True
  then have "(sin (radians \<theta>))\<^sup>2 = 1"
    using sin_cos_squared_add[of "radians \<theta>"] by simp
  then have "sin (radians \<theta>) = 1 \<or> sin (radians \<theta>) = - 1"
    by (simp add: power2_eq_1_iff)
  then show ?thesis using True by (auto simp: cos_deg_def)
next
  case False
  then have "cos_deg \<theta> = cos (radians \<theta>)" by (rule cos_deg_exact)
  then show ?thesis using one_plus_tan[OF assms] by (simp add: tan_def)
qed

lemma asr_time_defined:
  assumes "lat self = Fin 89" and "jDate self + time = Fin jd" and "\<bar>jd - 2451545\<bar> \<le> 1 / 2"
  shows "\<exists>r. asr_time self (Fin 1) time = Inr r"
proof -
  have sp: "sun_position (jDate self + time) = Inr (Fin (declination jd), Fin (equation_of_time jd))"
    by (simp add: assms(2) sun_position_Fin)
  have d: "- 24 < declination jd" "declination jd < 0" using declination_bounds[OF assms(3)] .
  have "1 + sin (radians \<bar>89 - declination jd\<bar>) / cos_deg \<bar>89 - declination jd\<bar> \<noteq> 0"
    using d by (intro one_plus_tan_deg) linarith+
  then obtain a where a: "arccot (Fin 1 + tan_d \<bar>lat self - Fin (declination jd)\<bar>) = Inr (Fin a)"
    by (simp add: arccot_def assms(1))
  obtain r where "sun_angle_time self (Fin (- a)) time None = Inr r"
    using sun_angle_time_total by blast
  then show ?thesis by (simp add: asr_time_def sp a)
qed

lemma mid_day_Fin:
  assumes "jDate self + time = Fin jd"
  shows "mid_day self time = Inr (Fin (fix_real (12 - equation_of_time jd) 24))"
  by (simp add: mid_day_def assms sun_position_Fin fixhour_real)

lemma julian_2000: "julian 2000 1 1 = Fin 2451544.5"
  by (simp add: julian_def Let_def)

lemma rise_set_angle_sea: "rise_set_angle (Some (Fin 0)) = Inr (Fin 0.833)"
  by (simp add: rise_set_angle_def)

lemma iterate_once: "iterate 1 f x = f x"
  unfolding One_nat_def by (cases "f x") simp_all

lemma compute_prayer_times_polar:
  assumes la: "lat self = Fin 89" and jd: "jDate self = Fin 2451544.5"
    and el: "elv self = Some (Fin 0)" and se: "settings self = settings (PrayTimes ''ISNA'')"
  shows "\<exists>t w. compute_prayer_times float_str self seed_times = Inr t \<and>
           sunrise t = NaN \<and> sunset t = NaN \<and> dhuhr t = Fin w"
proof -
  let ?t = "day_portion seed_times"
  have s: "settings self = [(''imsak'', PStr ''10 min''), (''dhuhr'', PStr ''0 min''),
      (''asr'', PStr ''Standard''), (''highLats'', PStr ''NightMiddle''), (''fajr'', PInt 15),
      (''isha'', PInt 15), (''maghrib'', PStr ''0 min''), (''midnight'', PStr ''Standard'')]"
    unfolding se PrayTimes_ISNA by simp
  have e1: "eval_param float_str self ''imsak'' = Inr 10"
    and e2: "eval_param float_str self ''fajr'' = Inr 15"
    and e7: "eval_param float_str self ''maghrib'' = Inr 0"
    and e8: "eval_param float_str self ''isha'' = Inr 15"
    and p5: "dict_get (settings self) ''asr'' = Inr (PStr ''Standard'')"
    by (simp_all add: eval_param_def dict_get_def s eval_examples)
  have a5: "asr_factor float_str (PStr ''Standard'') = Inr 1"
    by (simp add: asr_factor_def)
  have ra: "rise_set_angle (elv self) = Inr (Fin 0.833)"
    unfolding el by (rule rise_set_angle_sea)
  have j3: "jDate self + sunrise ?t = Fin (2451544.5 + 6 / 24)"
    and j4: "jDate self + dhuhr ?t = Fin (2451544.5 + 12 / 24)"
    and j5: "jDate self + asr ?t = Fin (2451544.5 + 13 / 24)"
    and j6: "jDate self + sunset ?t = Fin (2451544.5 + 18 / 24)"
    by (simp_all add: jd day_portion_def seed_times_def map_times_def)
  have n: "\<bar>(2451544.5 + 6 / 24) - 2451545\<bar> \<le> (1 / 2 :: real)"
    "\<bar>(2451544.5 + 13 / 24) - 2451545\<bar> \<le> (1 / 2 :: real)"
    "\<bar>(2451544.5 + 18 / 24) - 2451545\<bar> \<le> (1 / 2 :: real)"
    by simp_all
  obtain v1 where v1: "sun_angle_time self (Fin 10) (imsak ?t) (Some ''ccw'') = Inr v1"
    using sun_angle_time_total by blast
  obtain v2 where v2: "sun_angle_time self (Fin 15) (fajr ?t) (Some ''ccw'') = Inr v2"
    using sun_angle_time_total by blast
  have v3: "sun_angle_time self (Fin 0.833) (sunrise ?t) (Some ''ccw'') = Inr NaN"
    by (rule sun_angle_time_polar[OF la j3 n(1)])
  obtain w where v4: "mid_day self (dhuhr ?t) = Inr (Fin w)"
    using mid_day_Fin[OF j4] by blast
  obtain v5 where v5: "asr_time self (Fin 1) (asr ?t) = Inr v5"
    using asr_time_defined[OF la j5 n(2)] by blast
  have v6: "sun_angle_time self (Fin 0.833) (sunset ?t) None = Inr NaN"
    by (rule sun_angle_time_polar[OF la j6 n(3)])
  obtain v7 where v7: "sun_angle_time self (Fin 0) (maghrib ?t) None = Inr v7"
    using sun_angle_time_total by blast
  obtain v8 where v8: "sun_angle_time self (Fin 15) (isha ?t) None = Inr v8"
    using sun_angle_time_total by blast
  have "compute_prayer_times float_str self seed_times =
          Inr \<lparr> imsak = v1, fajr = v2, sunrise = NaN, dhuhr = Fin w, asr = v5, sunset = NaN,
                maghrib = v7, isha = v8 \<rparr>"
    unfolding compute_prayer_times_def Let_def
    by (simp only: e1 e2 e7 e8 p5 a5 ra v1 v2 v3 v4 v5 v6 v7 v8 ebind.simps)
  then show ?thesis by simp
qed

lemma settings_ok_ISNA:
  assumes "settings self = settings (PrayTimes ''ISNA'')"
  shows "settings_ok float_str self"
  unfolding settings_ok_def parses_def eval_param_def assms PrayTimes_ISNA
  by (simp add: dict_get_def eval_examples)

lemma offsets_ok_ISNA:
  assumes "offset self = offset (PrayTimes ''ISNA'')"
  shows "offsets_ok self"
  unfolding offsets_ok_def assms PrayTimes_ISNA
  by (simp add: dict_get_def time_names_def)

subsection \<open>The format get\_times stores and uses\<close>

lemma ebind_assoc: "ebind (ebind m f) g = ebind m (\<lambda>x. ebind (f x) g)"
  by (cases m) simp_all

lemma compute_times_unformatted:
  "compute_times float_str self = ebind (unformatted_times float_str self) (modify_formats self)"
  by (cases "iterate (num_iterations self) (compute_prayer_times float_str self) seed_times")
     (simp_all add: compute_times_def finish_times_def unformatted_times_def ebind_assoc)

lemma eval_param_format:
  "eval_param float_str (self\<lparr>time_format := g\<rparr>) name = eval_param float_str self name"
  by (simp add: eval_param_def)

lemma mid_day_format: "mid_day (self\<lparr>time_format := g\<rparr>) time = mid_day self time"
  by (simp add: mid_day_def)

lemma sun_angle_time_format:
  "sun_angle_time (self\<lparr>time_format := g\<rparr>) angle time direction
     = sun_angle_time self angle time direction"
  by (simp add: sun_angle_time_def mid_day_format hour_angle_arg_def)

lemma asr_time_format: "asr_time (self\<lparr>time_format := g\<rparr>) factor time = asr_time self factor time"
  by (simp add: asr_time_def sun_angle_time_format)

lemma compute_prayer_times_format:
  "compute_prayer_times float_str (self\<lparr>time_format := g\<rparr>) t = compute_prayer_times float_str self t"
  by (simp add: compute_prayer_times_def eval_param_format sun_angle_time_format asr_time_format
        mid_day_format)

lemma adjust_HL_time_format:
  "adjust_HL_time (self\<lparr>time_format := g\<rparr>) time base angle night direction
     = adjust_HL_time self time base angle night direction"
  by (simp add: adjust_HL_time_def night_portion_def)

lemma adjust_high_lats_format:
  "adjust_high_lats float_str (self\<lparr>time_format := g\<rparr>) t = adjust_high_lats float_str self t"
  by (simp add: adjust_high_lats_def eval_param_format adjust_HL_time_format)

lemma minute_offsets_format:
  "minute_offsets float_str (self\<lparr>time_format := g\<rparr>) t = minute_offsets float_str self t"
  by (simp add: minute_offsets_def eval_param_format)

lemma adjust_times_format:
  "adjust_times float_str (self\<lparr>time_format := g\<rparr>) t = adjust_times float_str self t"
  by (simp add: adjust_times_def adjust_high_lats_format minute_offsets_format cong: if_cong)

lemma tune_times_format: "tune_times (self\<lparr>time_format := g\<rparr>) t = tune_times self t"
  by (simp add: tune_times_def)

lemma unformatted_times_format:
  "unformatted_times float_str (self\<lparr>time_format := g\<rparr>) = unformatted_times float_str self"
proof -
  have "compute_prayer_times float_str (self\<lparr>time_format := g\<rparr>) = compute_prayer_times float_str self"
    by (rule ext) (rule compute_prayer_times_format)
  then show ?thesis
    by (simp add: unformatted_times_def adjust_times_format tune_times_format)
qed

lemma adjust_high_lats_dhuhr:
  assumes "adjust_high_lats float_str self t = Inr t'"
  shows "dhuhr t' = dhuhr t"
  using assms by (auto simp: adjust_high_lats_def ebind_Inr Let_def)

lemma minute_offsets_dhuhr:
  assumes "minute_offsets float_str self t = Inr t'"
  shows "\<exists>m. dhuhr t' = dhuhr t + Fin m"
proof -
  from assms obtain p1 ta p2 tb p3 tc m where
    a: "(if is_min p1
         then ebind (eval float_str p1) (\<lambda>m. Inr (t\<lparr>imsak := fajr t - Fin (m / 60.0)\<rparr>))
         else Inr t) = Inr ta"
    and b: "(if is_min p2
         then ebind (eval float_str p2) (\<lambda>m. Inr (ta\<lparr>maghrib := sunset ta - Fin (m / 60.0)\<rparr>))
         else Inr ta) = Inr tb"
    and c: "(if is_min p3
         then ebind (eval float_str p3) (\<lambda>m. Inr (tb\<lparr>isha := maghrib tb - Fin (m / 60.0)\<rparr>))
         else Inr tb) = Inr tc"
    and d: "t' = tc\<lparr>dhuhr := dhuhr tc + Fin (m / 60.0)\<rparr>"
    unfolding minute_offsets_def Let_def ebind_Inr by blast
  have "dhuhr ta = dhuhr t" using cond_update[OF a] by auto
  moreover have "dhuhr tb = dhuhr ta" using cond_update[OF b] by auto
  moreover have "dhuhr tc = dhuhr tb" using cond_update[OF c] by auto
  ultimately have "dhuhr t' = dhuhr t + Fin (m / 60.0)" using d by simp
  then show ?thesis by blast
qed

lemma adjust_times_dhuhr:
  assumes "adjust_times float_str self t = Inr t'"
    and "dhuhr t = Fin v" and "timeZone self = Fin z" and "lng self = Fin l"
  shows "\<exists>w. dhuhr t' = Fin w"
proof -
  let ?t1 = "map_times (\<lambda>v. v + (timeZone self - fdivl (lng self) 15.0)) t"
  have 1: "\<exists>w. dhuhr ?t1 = Fin w"
    using assms(2-4) by (simp add: map_times_def)
  from assms(1) obtain hl t2 where
    t2: "(if hl \<noteq> PStr ''None'' then adjust_high_lats float_str self ?t1 else Inr ?t1) = Inr t2"
    and m: "minute_offsets float_str self t2 = Inr t'"
    unfolding adjust_times_def Let_def ebind_Inr by blast
  have "dhuhr t2 = dhuhr ?t1"
    using t2 adjust_high_lats_dhuhr[of float_str self ?t1 t2] by (auto split: if_splits)
  then obtain w where "dhuhr t2 = Fin w" using 1 by auto
  then show ?thesis using minute_offsets_dhuhr[OF m] by auto
qed

lemma for_times_dhuhr:
  assumes "for_times f t = Inr t'"
  shows "f ''dhuhr'' (dhuhr t) = Inr (dhuhr t')"
  using assms by (auto simp: for_times_def ebind_Inr)

lemma unformatted_times_dhuhr:
  assumes it: "iterate (num_iterations self) (compute_prayer_times float_str self) seed_times = Inr t0"
    and u: "unformatted_times float_str self = Inr t"
    and v: "dhuhr t0 = Fin v" and z: "timeZone self = Fin z" and l: "lng self = Fin l"
    and off: "dict_get (offset self) ''dhuhr'' = Inr (PInt n)"
  shows "\<exists>w. dhuhr t = Fin w"
proof -
  from u obtain t1 night where a: "adjust_times float_str self t0 = Inr t1"
    and tt: "tune_times self (add_midnight t1 (sunset t1 + fdivl night 2)) = Inr t"
    unfolding unformatted_times_def it ebind.simps ebind_Inr by blast
  obtain w1 where w1: "dhuhr t1 = Fin w1" using adjust_times_dhuhr[OF a v z l] by blast
  have "Fin (w1 + real_of_int n / 60) = dhuhr t"
    using for_times_dhuhr[OF tt[unfolded tune_times_def]]
    by (simp add: off add_midnight_def w1)
  then show ?thesis by (rule exI[of _ "w1 + real_of_int n / 60", OF sym])
qed

lemma get_times_short_coords:
  assumes "length coords < 2"
  shows "fst (get_times float_str self date coords timezone dst format) = Inl IndexError"
    and "time_format (snd (get_times float_str self date coords timezone dst format)) = time_format self"
  using assms by (simp_all add: get_times_def Let_def)

lemma get_times_short_date:
  assumes "2 \<le> length coords" and "length date < 3"
  shows "get_times float_str self date coords timezone dst format =
           (Inl IndexError,
            self\<lparr>lat := coords ! 0, lng := coords ! 1,
                 elv := Some (if 2 < length coords then coords ! 2 else Fin 0),
                 time_format := (case format of None \<Rightarrow> time_format self | Some f \<Rightarrow> f),
                 timeZone := timezone + Fin (if dst then 1 else 0)\<rparr>)"
proof -
  have n: "\<not> length coords < 1" "\<not> length coords < 2" using assms by linarith+
  show ?thesis
    unfolding get_times_def Let_def if_not_P[OF n(1)] if_not_P[OF n(2)] if_P[OF assms(2)]
    by (cases self; cases format) simp_all
qed

lemma get_times_long:
  assumes "2 \<le> length coords" and "3 \<le> length date"
  shows "get_times float_str self date coords timezone dst format =
           (compute_times float_str
              (self\<lparr>lat := coords ! 0, lng := coords ! 1,
                 elv := Some (if 2 < length coords then coords ! 2 else Fin 0),
                 time_format := (case format of None \<Rightarrow> time_format self | Some f \<Rightarrow> f),
                 timeZone := timezone + Fin (if dst then 1 else 0),
                 jDate := julian (date ! 0) (date ! 1) (date ! 2) - fdivl (coords ! 1) (15 * 24.0)\<rparr>),
            self\<lparr>lat := coords ! 0, lng := coords ! 1,
                 elv := Some (if 2 < length coords then coords ! 2 else Fin 0),
                 time_format := (case format of None \<Rightarrow> time_format self | Some f \<Rightarrow> f),
                 timeZone := timezone + Fin (if dst then 1 else 0),
                 jDate := julian (date ! 0) (date ! 1) (date ! 2) - fdivl (coords ! 1) (15 * 24.0)\<rparr>)"
proof -
  have n: "\<not> length coords < 1" "\<not> length coords < 2" "\<not> length date < 3"
    using assms by linarith+
  show ?thesis
    unfolding get_times_def Let_def if_not_P[OF n(1)] if_not_P[OF n(2)] if_not_P[OF n(3)]
    by (cases self; cases format) simp_all
qed

lemma get_times_stores_format:
  assumes "2 \<le> length coords"
  shows "time_format (snd (get_times float_str self date coords timezone dst (Some f))) = f"
proof (cases "length date < 3")
  case True
  show ?thesis unfolding get_times_short_date[OF assms True] by simp
next
  case False
  then have d: "3 \<le> length date" by simp
  show ?thesis unfolding get_times_long[OF assms d] by simp
qed

lemma get_times_keeps_format:
  "time_format (snd (get_times float_str self date coords timezone dst None)) = time_format self"
proof (cases "length coords < 2")
  case True
  then show ?thesis by (rule get_times_short_coords(2))
next
  case False
  then have c: "2 \<le> length coords" by simp
  show ?thesis
  proof (cases "length date < 3")
    case True
    show ?thesis unfolding get_times_short_date[OF c True] by simp
  next
    case False
    then have d: "3 \<le> length date" by simp
    show ?thesis unfolding get_times_long[OF c d] by simp
  qed
qed

lemma later_calls_format: "time_format (later_calls float_str self calls) = time_format self"
  by (induction float_str self calls rule: later_calls.induct)
     (simp_all add: get_times_keeps_format)

lemma get_times_result:
  assumes "2 \<le> length coords" and "3 \<le> length date"
  shows "fst (get_times float_str self date coords timezone dst format) =
           ebind (unformatted_times float_str (snd (get_times float_str self date coords timezone dst format)))
             (for_times (\<lambda>name v. get_formatted_time v
                (time_format (snd (get_times float_str self date coords timezone dst format)))))"
proof -
  have "for_times (\<lambda>name v. get_formatted_time v (time_format s)) = modify_formats s" for s
    by (rule ext) (simp add: modify_formats_def)
  then show ?thesis
    unfolding get_times_long[OF assms] fst_conv snd_conv
    by (simp only: compute_times_unformatted)
qed

text \<open>
  Claim C10. A call of \<open>get_times\<close> with a format \<open>f\<close> and at least the two
  coordinates stores \<open>f\<close> on the engine, also when the call raises afterwards, and its
  own result is the unformatted times formatted with \<open>f\<close>. After any number of later
  calls that omit the format the engine still holds \<open>f\<close>, and the result of every such
  call is the unformatted times of that call formatted with \<open>f\<close>: the format of one call
  is the format of every later call that gives none. (With fewer than two coordinates
  the call raises IndexError before the format is assigned, lemma
  \<open>get_times_short_coords\<close>.)
\<close>

theorem get_times_format_persists:
  assumes "2 \<le> length coords"
  shows
    "time_format (snd (get_times float_str self date coords timezone dst (Some f))) = f \<and>
     (3 \<le> length date \<longrightarrow>
        fst (get_times float_str self date coords timezone dst (Some f)) =
          ebind (unformatted_times float_str
                   (snd (get_times float_str self date coords timezone dst (Some f))))
            (for_times (\<lambda>name v. get_formatted_time v f))) \<and>
     (let s = later_calls float_str
                (snd (get_times float_str self date coords timezone dst (Some f))) calls
      in time_format s = f \<and>
         time_format (snd (get_times float_str s date' coords' timezone' dst' None)) = f \<and>
         (2 \<le> length coords' \<and> 3 \<le> length date' \<longrightarrow>
            fst (get_times float_str s date' coords' timezone' dst' None) =
              ebind (unformatted_times float_str
                       (snd (get_times float_str s date' coords' timezone' dst' None)))
                (for_times (\<lambda>name v. get_formatted_time v f))))"
proof -
  let ?s1 = "snd (get_times float_str self date coords timezone dst (Some f))"
  let ?s = "later_calls float_str ?s1 calls"
  have 1: "time_format ?s1 = f" using assms by (rule get_times_stores_format)
  have 2: "time_format ?s = f" by (simp add: later_calls_format 1)
  have 3: "time_format (snd (get_times float_str ?s date' coords' timezone' dst' None)) = f"
    by (simp add: get_times_keeps_format 2)
  have 4: "fst (get_times float_str self date coords timezone dst (Some f)) =
          ebind (unformatted_times float_str ?s1) (for_times (\<lambda>name v. get_formatted_time v f))"
    if "3 \<le> length date"
    using get_times_result[OF assms that, of float_str self timezone dst "Some f"]
    by (simp only: 1)
  have 5: "fst (get_times float_str ?s date' coords' timezone' dst' None) =
              ebind (unformatted_times float_str
                       (snd (get_times float_str ?s date' coords' timezone' dst' None)))
                (for_times (\<lambda>name v. get_formatted_time v f))"
    if "2 \<le> length coords'" and "3 \<le> length date'"
    using get_times_result[OF that, of float_str ?s timezone' dst' None]
    by (simp only: 3)
  show ?thesis
    unfolding Let_def using 1 2 3 4 5 by blast
qed

lemma get_times_frame:
  "settings (snd (get_times float_str self date coords timezone dst format)) = settings self"
  "offset (snd (get_times float_str self date coords timezone dst format)) = offset self"
  "num_iterations (snd (get_times float_str self date coords timezone dst format)) = num_iterations self"
  by (simp_all add: get_times_def Let_def split: option.split)

lemma later_calls_frame:
  "settings (later_calls float_str self calls) = settings self \<and>
   offset (later_calls float_str self calls) = offset self \<and>
   num_iterations (later_calls float_str self calls) = num_iterations self"
  by (induction float_str self calls rule: later_calls.induct)
     (simp_all add: get_times_frame)

lemma polar_unformatted:
  assumes "lat self = Fin 89" and "lng self = Fin 0" and "elv self = Some (Fin 0)"
    and "timeZone self = Fin 0" and "jDate self = Fin 2451544.5"
    and "settings self = settings (PrayTimes ''ISNA'')"
    and "offset self = offset (PrayTimes ''ISNA'')" and "num_iterations self = 1"
  shows "\<exists>t w. unformatted_times float_str self = Inr t \<and> dhuhr t = Fin w"
proof -
  obtain t0 w0 where t0: "compute_prayer_times float_str self seed_times = Inr t0"
    and w0: "dhuhr t0 = Fin w0"
    using compute_prayer_times_polar[OF assms(1,5,3,6), of float_str] by blast
  have it: "iterate (num_iterations self) (compute_prayer_times float_str self) seed_times = Inr t0"
    unfolding assms(8) iterate_once by (rule t0)
  obtain t where t: "unformatted_times float_str self = Inr t"
    using unformatted_times_total[OF it settings_ok_ISNA[OF assms(6)] offsets_ok_ISNA[OF assms(7)]]
    by blast
  have off: "dict_get (offset self) ''dhuhr'' = Inr (PInt 0)"
    unfolding assms(7) PrayTimes_ISNA by (simp add: dict_get_def)
  obtain w where "dhuhr t = Fin w"
    using unformatted_times_dhuhr[OF it t w0 assms(4,2) off] by blast
  then show ?thesis using t by blast
qed

lemma format_times_total: "\<exists>out. for_times (\<lambda>name v. get_formatted_time v g) t = Inr out"
  by (rule for_times_total) (rule get_formatted_time_total)+

lemma formatted_dhuhr:
  assumes "unformatted_times float_str self = Inr t" and "dhuhr t = Fin w"
  shows "\<exists>out. ebind (unformatted_times float_str self)
                  (for_times (\<lambda>name v. get_formatted_time v g)) = Inr out \<and>
               get_formatted_time (Fin w) g = Inr (dhuhr out)"
proof -
  obtain out where out: "for_times (\<lambda>name v. get_formatted_time v g) t = Inr out"
    using format_times_total by blast
  show ?thesis
    using out for_times_dhuhr[OF out] by (simp add: assms)
qed

lemma get_formatted_time_Float: "get_formatted_time (Fin w) ''Float'' = Inr (Number (Fin w))"
  by (simp add: get_formatted_time_def)

lemma get_formatted_time_24h: "\<exists>str. get_formatted_time (Fin w) ''24h'' = Inr (Text str)"
  by (simp add: get_formatted_time_def fixhour_Fin Let_def)

theorem get_times_format_persists_witness:
  "\<forall>float_str.
     (2::nat) \<le> length [Fin 89, Fin 0] \<and>
     (\<exists>out v.
        fst (get_times float_str
               (later_calls float_str
                  (snd (get_times float_str (PrayTimes ''ISNA'') [2000, 1, 1] [Fin 89, Fin 0]
                          (Fin 0) False (Some ''Float'')))
                  [([2000, 6, 1], [Fin 40, Fin 30], Fin 3, True)])
               [2000, 1, 1] [Fin 89, Fin 0] (Fin 0) False None) = Inr out \<and>
        dhuhr out = Number (Fin v)) \<and>
     (\<exists>out str.
        fst (get_times float_str (PrayTimes ''ISNA'') [2000, 1, 1] [Fin 89, Fin 0]
               (Fin 0) False None) = Inr out \<and>
        dhuhr out = Text str)"
proof (intro allI conjI)
  fix float_str
  show "(2::nat) \<le> length [Fin 89, Fin 0]" by simp
next
  fix float_str
  let ?s1 = "snd (get_times float_str (PrayTimes ''ISNA'') [2000, 1, 1] [Fin 89, Fin 0]
                          (Fin 0) False (Some ''Float''))"
  let ?s = "later_calls float_str ?s1 [([2000, 6, 1], [Fin 40, Fin 30], Fin 3, True)]"
  let ?s' = "snd (get_times float_str ?s [2000, 1, 1] [Fin 89, Fin 0] (Fin 0) False None)"
  have l: "(2::nat) \<le> length [Fin 89, Fin 0 :: pyfloat]" "(3::nat) \<le> length [2000, 1, 1 :: int]"
    by simp_all
  have r: "fst (get_times float_str ?s [2000, 1, 1] [Fin 89, Fin 0] (Fin 0) False None) =
             ebind (unformatted_times float_str ?s')
               (for_times (\<lambda>name v. get_formatted_time v ''Float''))"
    using get_times_format_persists[OF l(1), of float_str "PrayTimes ''ISNA''" "[2000, 1, 1]"
        "Fin 0" False "''Float''" "[([2000, 6, 1], [Fin 40, Fin 30], Fin 3, True)]"
        "[2000, 1, 1]" "[Fin 89, Fin 0]" "Fin 0" False]
    unfolding Let_def using l by blast
  have f: "settings ?s' = settings (PrayTimes ''ISNA'')" "offset ?s' = offset (PrayTimes ''ISNA'')"
    "num_iterations ?s' = 1"
    by (simp_all add: get_times_frame later_calls_frame PrayTimes_ISNA class_state_def)
  have g: "lat ?s' = Fin 89" "lng ?s' = Fin 0" "elv ?s' = Some (Fin 0)" "timeZone ?s' = Fin 0"
    "jDate ?s' = Fin 2451544.5"
    unfolding get_times_long[OF l] by (simp_all add: julian_2000)
  obtain t w where t: "unformatted_times float_str ?s' = Inr t" and w: "dhuhr t = Fin w"
    using polar_unformatted[OF g f, of float_str] by blast
  obtain out where o:
    "ebind (unformatted_times float_str ?s')
       (for_times (\<lambda>name v. get_formatted_time v ''Float'')) = Inr out"
    and d: "get_formatted_time (Fin w) ''Float'' = Inr (dhuhr out)"
    using formatted_dhuhr[OF t w] by blast
  have "dhuhr out = Number (Fin w)"
    using d by (simp add: get_formatted_time_Float)
  then show "\<exists>out v.
        fst (get_times float_str ?s [2000, 1, 1] [Fin 89, Fin 0] (Fin 0) False None) = Inr out \<and>
        dhuhr out = Number (Fin v)"
    unfolding r using o by blast
next
  fix float_str
  let ?s' = "snd (get_times float_str (PrayTimes ''ISNA'') [2000, 1, 1] [Fin 89, Fin 0]
               (Fin 0) False None)"
  have l: "(2::nat) \<le> length [Fin 89, Fin 0 :: pyfloat]" "(3::nat) \<le> length [2000, 1, 1 :: int]"
    by simp_all
  have tf: "time_format ?s' = ''24h''"
    by (simp add: get_times_keeps_format PrayTimes_ISNA class_state_def)
  have r: "fst (get_times float_str (PrayTimes ''ISNA'') [2000, 1, 1] [Fin 89, Fin 0]
               (Fin 0) False None) =
             ebind (unformatted_times float_str ?s')
               (for_times (\<lambda>name v. get_formatted_time v ''24h''))"
    using get_times_result[OF l, of float_str "PrayTimes ''ISNA''" "Fin 0" False None]
    by (simp only: tf)
  have f: "settings ?s' = settings (PrayTimes ''ISNA'')" "offset ?s' = offset (PrayTimes ''ISNA'')"
    "num_iterations ?s' = 1"
    by (simp_all add: get_times_frame PrayTimes_ISNA class_state_def)
  have g: "lat ?s' = Fin 89" "lng ?s' = Fin 0" "elv ?s' = Some (Fin 0)" "timeZone ?s' = Fin 0"
    "jDate ?s' = Fin 2451544.5"
    unfolding get_times_long[OF l] by (simp_all add: julian_2000)
  obtain t w where t: "unformatted_times float_str ?s' = Inr t" and w: "dhuhr t = Fin w"
    using polar_unformatted[OF g f, of float_str] by blast
  obtain out where o:
    "ebind (unformatted_times float_str ?s')
       (for_times (\<lambda>name v. get_formatted_time v ''24h'')) = Inr out"
    and d: "get_formatted_time (Fin w) ''24h'' = Inr (dhuhr out)"
    using formatted_dhuhr[OF t w] by blast
  obtain str where "get_formatted_time (Fin w) ''24h'' = Inr (Text str)"
    using get_formatted_time_24h by blast
  then have "dhuhr out = Text str" using d by simp
  then show "\<exists>out str.
        fst (get_times float_str (PrayTimes ''ISNA'') [2000, 1, 1] [Fin 89, Fin 0]
               (Fin 0) False None) = Inr out \<and>
        dhuhr out = Text str"
    unfolding r using o by blast
qed

end
